theory Spec2Isabelle
  imports Main
begin

section \<open>Python strings and formatting\<close>

text \<open>
  A Python \<open>str\<close> is modelled as a \<open>string\<close> (a list of characters); the characters
  stand for code points below 256.  The functions of this section are the library
  functions the two modules call on strings: \<open>sep.join(xs)\<close>, \<open>s.split(',')\<close>,
  \<open>s.strip()\<close>, \<open>str(n)\<close> for an integer and the \<open>repr\<close> that an f-string applies to
  the elements of a list.
\<close>

fun join :: "string \<Rightarrow> string list \<Rightarrow> string" where
  "join sep [] = []"
| "join sep [x] = x"
| "join sep (x # y # ys) = x @ sep @ join sep (y # ys)"

text \<open>\<open>s.split(c)\<close> for a separator of one character: never the empty list.\<close>

fun split :: "char \<Rightarrow> string \<Rightarrow> string list" where
  "split c [] = [[]]"
| "split c (x # xs) =
     (if x = c then [] # split c xs
      else (case split c xs of
              [] \<Rightarrow> [[x]]
            | p # ps \<Rightarrow> (x # p) # ps))"

text \<open>
  The characters \<open>str.isspace\<close> accepts among the code points below 256: tab, line
  feed, vertical tab, form feed, carriage return, the separators 28 to 31, space,
  next line (133) and no-break space (160).
\<close>

definition isspace :: "char \<Rightarrow> bool" where
  "isspace c = (of_char c \<in> {9, 10, 11, 12, 13, 28, 29, 30, 31, 32, 133, 160 :: nat})"

definition strip :: "string \<Rightarrow> string" where
  "strip s = rev (dropWhile isspace (rev (dropWhile isspace s)))"

fun str_nat :: "nat \<Rightarrow> string" where
  "str_nat n =
     (if n < 10 then [char_of (48 + n)]
      else str_nat (n div 10) @ [char_of (48 + n mod 10)])"

declare str_nat.simps [simp del]

definition str_int :: "int \<Rightarrow> string" where
  "str_int i = (if i < 0 then ''-'' @ str_nat (nat (- i)) else str_nat (nat i))"

text \<open>
  \<open>repr\<close> of a string is the string in single quotes; the escapes \<open>repr\<close> adds for a
  quote, a backslash or a control character inside a name are not modelled.  The
  \<open>repr\<close> of a list and of a pair follow Python's layout.
\<close>

definition repr_str :: "string \<Rightarrow> string" where
  "repr_str s = [CHR 0x27] @ s @ [CHR 0x27]"

definition repr_list :: "string list \<Rightarrow> string" where
  "repr_list xs = ''['' @ join '', '' (map repr_str xs) @ '']''"

definition repr_pair :: "string \<times> string \<Rightarrow> string" where
  "repr_pair p = ''('' @ repr_str (fst p) @ '', '' @ repr_str (snd p) @ '')''"

definition repr_pairs :: "(string \<times> string) list \<Rightarrow> string" where
  "repr_pairs ps = ''['' @ join '', '' (map repr_pair ps) @ '']''"

section \<open>Exceptions, data frames and the engine\<close>

text \<open>
  An exception is a value: its class and its message.  \<open>exn_str\<close> is \<open>str(e)\<close>, what
  an f-string writes for \<open>{e}\<close>.  \<open>EngineError\<close> stands for any other exception class
  the engine raises.
\<close>

datatype exn =
    AnalysisException string
  | RuntimeError string
  | TypeError string
  | IndexError string
  | EngineError string

fun exn_str :: "exn \<Rightarrow> string" where
  "exn_str (AnalysisException m) = m"
| "exn_str (RuntimeError m) = m"
| "exn_str (TypeError m) = m"
| "exn_str (IndexError m) = m"
| "exn_str (EngineError m) = m"

fun is_AnalysisException :: "exn \<Rightarrow> bool" where
  "is_AnalysisException (AnalysisException m) = True"
| "is_AnalysisException e = False"

text \<open>
  A cell is a number, a string or \<open>NULL\<close> (\<open>None\<close>); numbers are integers.  A row gives
  the cells by column name, a data frame is its column names and its rows.
\<close>

datatype val = Num int | Str string

type_synonym cell = "val option"

type_synonym row = "(string \<times> cell) list"

record dataframe =
  columns :: "string list"
  rows :: "row list"

text \<open>
  The column expressions the code builds: \<open>F.col(c)\<close>, a Python number or string as a
  literal, \<open>.isNull()\<close>, \<open><\<close>, \<open>>\<close>, \<open>==\<close> and \<open>|\<close>.  Numbers are integers.  What a
  condition means on a data frame is for the engine to say.
\<close>

datatype operand = Col string | Lit val

datatype condition =
    IsNull operand
  | Less operand operand
  | Greater operand operand
  | Equal operand operand
  | Or condition condition

text \<open>
  The Spark session is the engine behind both modules, and every computation on data
  is its own: the modules only call it.  So the engine is a parameter of the model,
  and what its operations answer is not fixed here.  Its state (catalog, Delta
  tables, temporary views) has the abstract type \<open>'s\<close>.
  \<^item> \<open>sql\<close> is \<open>spark.sql(query)\<close>, which may raise and may change the state;
  \<^item> \<open>createOrReplaceTempView\<close> registers a data frame under a name;
  \<^item> \<open>select_collect\<close> is \<open>df.select(*cols).collect()\<close>, the selected cells row by row;
  \<^item> \<open>filter_rows\<close> is \<open>df.filter(condition)\<close> and \<open>count\<close> is \<open>df.count()\<close>;
  \<^item> \<open>groupBy_count\<close> is \<open>df.groupBy(keys).count()\<close>;
  \<^item> \<open>withColumn_row_number\<close> is \<open>df.withColumn(name, F.row_number().over(
    Window.partitionBy(part).orderBy(the columns of ord, each descending)))\<close>;
  \<^item> \<open>join_left_anti\<close> is \<open>df.join(ref, df[c] == ref[c], "left_anti")\<close>;
  \<^item> \<open>drop_columns\<close> is \<open>df.drop(*cols)\<close>, which does not raise.
  The operations on data frames are methods of the data frame in the code; the model
  passes the engine they belong to along with the frame.  Each of them but
  \<open>drop_columns\<close> may raise.
\<close>

record 's spark =
  sql :: "string \<Rightarrow> 's \<Rightarrow> 's \<times> (exn + dataframe)"
  createOrReplaceTempView :: "dataframe \<Rightarrow> string \<Rightarrow> 's \<Rightarrow> 's"
  select_collect :: "dataframe \<Rightarrow> string list \<Rightarrow> exn + cell list list"
  filter_rows :: "dataframe \<Rightarrow> condition \<Rightarrow> exn + dataframe"
  count :: "dataframe \<Rightarrow> exn + nat"
  groupBy_count :: "dataframe \<Rightarrow> string list \<Rightarrow> exn + dataframe"
  withColumn_row_number :: "dataframe \<Rightarrow> string \<Rightarrow> string list \<Rightarrow> string list \<Rightarrow> exn + dataframe"
  join_left_anti :: "dataframe \<Rightarrow> dataframe \<Rightarrow> string \<Rightarrow> exn + dataframe"
  drop_columns :: "dataframe \<Rightarrow> string list \<Rightarrow> dataframe"

text \<open>
  What a call leaves behind: the state of the session, the calls made on the logger
  of the quality manager, the messages written to the helper of the merge module and
  the data frames shown by \<open>display\<close>.
\<close>

datatype log_entry =
    LogMessage string string
  | LogBlock string "string list"
  | LogStart string
  | LogEnd string bool "string option"

record 's world =
  session :: 's
  logged :: "log_entry list"
  helper_messages :: "string list"
  displayed :: "dataframe list"

type_synonym ('s, 'a) action = "'s world \<Rightarrow> 's world \<times> (exn + 'a)"

section \<open>Module \<open>merge_management\<close>\<close>

text \<open>
  \<open>helper\<close> says whether a helper object was passed; \<open>helper.write_message(m)\<close>
  appends \<open>m\<close> to \<open>helper_messages\<close>.
\<close>

definition write_message :: "bool \<Rightarrow> string \<Rightarrow> 's world \<Rightarrow> 's world" where
  "write_message helper m w =
     (if helper then w\<lparr>helper_messages := helper_messages w @ [m]\<rparr> else w)"

definition run_sql :: "'s spark \<Rightarrow> string \<Rightarrow> 's world \<Rightarrow> 's world \<times> (exn + dataframe)" where
  "run_sql spark query w =
     (case sql spark query (session w) of (s', r) \<Rightarrow> (w\<lparr>session := s'\<rparr>, r))"



definition match_sql :: "string \<Rightarrow> string" where
  "match_sql key_columns =
     join '' AND '' (map (\<lambda>col. ''s.'' @ strip col @ '' = t.'' @ strip col) (split CHR '','' key_columns))"

definition merge_sql_text :: "string \<Rightarrow> string \<Rightarrow> string \<Rightarrow> string \<Rightarrow> string" where
  "merge_sql_text view_name database_name table_name key_columns =
     ''\<newline>    MERGE INTO '' @ database_name @ ''.'' @ table_name @ '' AS t'' @
     ''\<newline>    USING '' @ view_name @ '' AS s'' @
     ''\<newline>    ON '' @ match_sql key_columns @
     ''\<newline>    WHEN MATCHED THEN'' @
     ''\<newline>      UPDATE SET *'' @
     ''\<newline>    WHEN NOT MATCHED THEN'' @
     ''\<newline>      INSERT *'' @
     ''\<newline>    ''"

definition generate_merge_sql ::
  "string \<Rightarrow> string \<Rightarrow> string \<Rightarrow> string \<Rightarrow> bool \<Rightarrow> ('s, string) action" where
  "generate_merge_sql view_name database_name table_name key_columns helper w =
     (let merge_sql = merge_sql_text view_name database_name table_name key_columns
      in (write_message helper (''Executing SQL query: '' @ merge_sql) w, Inr merge_sql))"

text \<open>
  The version is a Python integer, so \<open>pre_merge_version + 1\<close> cannot raise and the
  handler around it is never entered.
\<close>

definition execute_merge_and_get_post_version ::
  "'s spark \<Rightarrow> string \<Rightarrow> string \<Rightarrow> string \<Rightarrow> int \<Rightarrow> bool \<Rightarrow> ('s, int) action" where
  "execute_merge_and_get_post_version spark database_name table_name merge_sql pre_merge_version helper w =
     (case run_sql spark merge_sql w of
        (w1, Inl e) \<Rightarrow> (write_message helper (''Error during data merge: '' @ exn_str e) w1, Inl e)
      | (w1, Inr df) \<Rightarrow>
          (write_message helper ''Data merged successfully.'' w1, Inr (pre_merge_version + 1)))"

definition merged_data_sql :: "string \<Rightarrow> string \<Rightarrow> int \<Rightarrow> int \<Rightarrow> string" where
  "merged_data_sql database_name table_name pre_merge_version post_merge_version =
     ''\<newline>    SELECT * FROM '' @ database_name @ ''.'' @ table_name @
       '' VERSION AS OF '' @ str_int post_merge_version @
     ''\<newline>    EXCEPT'' @
     ''\<newline>    SELECT * FROM '' @ database_name @ ''.'' @ table_name @
       '' VERSION AS OF '' @ str_int pre_merge_version @
     ''\<newline>    ''"

definition limit :: "nat \<Rightarrow> dataframe \<Rightarrow> dataframe" where
  "limit n df = df\<lparr>rows := take n (rows df)\<rparr>"

definition display :: "dataframe \<Rightarrow> 's world \<Rightarrow> 's world" where
  "display df w = w\<lparr>displayed := displayed w @ [df]\<rparr>"

definition display_newly_merged_data ::
  "'s spark \<Rightarrow> string \<Rightarrow> string \<Rightarrow> int \<Rightarrow> int \<Rightarrow> bool \<Rightarrow> ('s, unit) action" where
  "display_newly_merged_data spark database_name table_name pre_merge_version post_merge_version helper w =
     (let query = merged_data_sql database_name table_name pre_merge_version post_merge_version;
          w0 = write_message helper (''Displaying newly merged data with query: '' @ query) w
      in (case run_sql spark query w0 of
            (w1, Inl e) \<Rightarrow>
              (write_message helper (''Error displaying merged data: '' @ exn_str e) w1, Inl e)
          | (w1, Inr merged_data_df) \<Rightarrow> (display (limit 10 merged_data_df) w1, Inr ())))"

section \<open>Actions: sequencing, raising and handling\<close>

definition returns :: "'a \<Rightarrow> ('s, 'a) action" where
  "returns x w = (w, Inr x)"

definition raises :: "exn \<Rightarrow> ('s, 'a) action" where
  "raises e w = (w, Inl e)"

definition lift :: "exn + 'a \<Rightarrow> ('s, 'a) action" where
  "lift r w = (w, r)"

definition effect :: "('s world \<Rightarrow> 's world) \<Rightarrow> ('s, unit) action" where
  "effect f w = (f w, Inr ())"

definition then_do :: "('s, 'a) action \<Rightarrow> ('a \<Rightarrow> ('s, 'b) action) \<Rightarrow> ('s, 'b) action" where
  "then_do m f w = (case m w of (w1, Inl e) \<Rightarrow> (w1, Inl e) | (w1, Inr x) \<Rightarrow> f x w1)"

definition try_except :: "('s, 'a) action \<Rightarrow> (exn \<Rightarrow> ('s, 'a) action) \<Rightarrow> ('s, 'a) action" where
  "try_except m h w = (case m w of (w1, Inl e) \<Rightarrow> h e w1 | (w1, Inr x) \<Rightarrow> (w1, Inr x))"

fun for_each :: "'a list \<Rightarrow> ('a \<Rightarrow> ('s, unit) action) \<Rightarrow> ('s, unit) action" where
  "for_each [] f = returns ()"
| "for_each (x # xs) f = then_do (f x) (\<lambda>u. for_each xs f)"

section \<open>Module \<open>quality\<close>: the class \<open>DataQualityManager\<close>\<close>

text \<open>
  The manager holds the \<open>debug\<close> flag; the calls on its logger are recorded in
  \<open>logged\<close>.  \<open>sqlparse_format\<close> is \<open>sqlparse.format(query, reindent=True,
  keyword_case='upper')\<close>, a function of an external library, used for log messages
  only.
\<close>

record DataQualityManager =
  debug :: bool
  sqlparse_format :: "string \<Rightarrow> string"

definition logger_call :: "log_entry \<Rightarrow> 's world \<Rightarrow> 's world" where
  "logger_call entry w = w\<lparr>logged := logged w @ [entry]\<rparr>"

definition log_message :: "DataQualityManager \<Rightarrow> string \<Rightarrow> string \<Rightarrow> 's world \<Rightarrow> 's world" where
  "log_message self message level w =
     (if debug self \<or> level \<noteq> ''info'' then logger_call (LogMessage message level) w else w)"

definition log_block :: "DataQualityManager \<Rightarrow> string \<Rightarrow> string list \<Rightarrow> 's world \<Rightarrow> 's world" where
  "log_block self header content_lines w =
     (if debug self then logger_call (LogBlock header content_lines) w else w)"

definition raise_error :: "DataQualityManager \<Rightarrow> string \<Rightarrow> ('s, 'a) action" where
  "raise_error self message w = (log_message self message ''error'' w, Inl (RuntimeError message))"

text \<open>
  \<open>str.splitlines()\<close>: the line boundaries among the code points below 256 are line
  feed, carriage return (with a following line feed), vertical tab, form feed, the
  separators 28 to 30 and next line (133); a final boundary opens no further line.
\<close>

definition linebreak :: "char \<Rightarrow> bool" where
  "linebreak c = (of_char c \<in> {10, 11, 12, 13, 28, 29, 30, 133 :: nat})"

fun splitlines_from :: "string \<Rightarrow> string \<Rightarrow> string list" where
  "splitlines_from cur [] = (if cur = [] then [] else [cur])"
| "splitlines_from cur (x # xs) =
     (if x = CHR 0x0D \<and> xs \<noteq> [] \<and> hd xs = CHR 0x0A then cur # splitlines_from [] (tl xs)
      else if linebreak x then cur # splitlines_from [] xs
      else splitlines_from (cur @ [x]) xs)"

definition splitlines :: "string \<Rightarrow> string list" where
  "splitlines s = splitlines_from [] s"

definition quoted :: "string \<Rightarrow> string" where
  "quoted s = [CHR 0x27] @ s @ [CHR 0x27]"

definition format_sql_query :: "DataQualityManager \<Rightarrow> string \<Rightarrow> string" where
  "format_sql_query self query =
     (let sql_indent = replicate 7 CHR '' '';
          formatted_query = sqlparse_format self query;
          indented_query =
            join ''\<newline>'' (map (\<lambda>line. if strip line \<noteq> [] then sql_indent @ line else line)
                                  (splitlines formatted_query))
      in indented_query @ ''\<newline>'')"

definition list_available_checks :: "(string \<times> string) list" where
  "list_available_checks =
     [(''Handling Multiple Files'',
       ''Triggered by '' @ quoted ''key_columns'' @ ''. Uses input_file_name to keep the latest record per key.''),
      (''Duplicate Check'',
       ''Triggered by '' @ quoted ''key_columns'' @ ''. Checks for duplicate records based on specified columns.''),
      (''Null Values Check'',
       ''Triggered by '' @ quoted ''critical_columns'' @ ''. Checks for null values in specified columns.''),
      (''Value Range Check'',
       ''Triggered by '' @ quoted ''column_ranges'' @ ''. Checks if values in specified columns are within the provided ranges.''),
      (''Referential Integrity Check'',
       ''Triggered by '' @ quoted ''reference_df'' @ '' and '' @ quoted ''join_column'' @
       ''. Checks if all records have matching references in another dataset.''),
      (''Field Consistency Check'',
       ''Triggered by '' @ quoted ''consistency_pairs'' @
       ''. Checks if values in specified column pairs are consistent (e.g., start date < end date).''),
      (''Exclude Columns'',
       ''Triggered by '' @ quoted ''columns_to_exclude'' @ ''. Drops specified columns from the DataFrame.'')]"

definition describe_available_checks :: "DataQualityManager \<Rightarrow> 's world \<Rightarrow> 's world" where
  "describe_available_checks self w =
     log_block self ''Available Quality Checks''
       (map (\<lambda>(check, description). check @ '': '' @ description) list_available_checks) w"

text \<open>
  The arguments and Python's truth of them.  \<open>key_columns\<close> and \<open>order_by\<close> are a string
  or a list of strings; an optional argument is \<open>None\<close> when it is not passed.  A
  string or a list is true when it is not empty, a data frame object is always true.
\<close>

datatype keys = KStr string | KList "string list"

fun truthy_keys :: "keys \<Rightarrow> bool" where
  "truthy_keys (KStr s) = (s \<noteq> [])"
| "truthy_keys (KList xs) = (xs \<noteq> [])"

fun as_list :: "keys \<Rightarrow> string list" where
  "as_list (KStr s) = [s]"
| "as_list (KList xs) = xs"

fun truthy :: "'a list option \<Rightarrow> bool" where
  "truthy None = False"
| "truthy (Some xs) = (xs \<noteq> [])"

fun truthy_opt_keys :: "keys option \<Rightarrow> bool" where
  "truthy_opt_keys None = False"
| "truthy_opt_keys (Some k) = truthy_keys k"

fun items :: "'a list option \<Rightarrow> 'a list" where
  "items None = []"
| "items (Some xs) = xs"

definition list_checks_to_perform ::
  "keys option \<Rightarrow> string list option \<Rightarrow> (string \<times> int \<times> int) list option \<Rightarrow> dataframe option \<Rightarrow>
   string option \<Rightarrow> (string \<times> string) list option \<Rightarrow> string list option \<Rightarrow> string list" where
  "list_checks_to_perform key_columns critical_columns column_ranges reference_df join_column
     consistency_pairs columns_to_exclude =
     (if truthy_opt_keys key_columns then [''Handling Multiple Files'', ''Duplicate Check''] else []) @
     (if truthy critical_columns then [''Null Values Check''] else []) @
     (if truthy column_ranges then [''Value Range Check''] else []) @
     (if reference_df \<noteq> None \<and> truthy join_column then [''Referential Integrity Check''] else []) @
     (if truthy consistency_pairs then [''Field Consistency Check''] else []) @
     (if truthy columns_to_exclude then [''Exclude Columns''] else [])"

subsection \<open>\<open>_handle_multiple_files\<close>\<close>

text \<open>
  \<open>list(set(['input_file_name'] + key_columns))\<close>: the names without repetition.  The
  order in which Python lists a set is not determined; the model keeps the order of
  the last occurrences, and only the query text and the log message depend on it.
\<close>

definition partition_columns :: "keys \<Rightarrow> string list" where
  "partition_columns key_columns = remdups (''input_file_name'' # as_list key_columns)"

definition order_by_columns :: "keys option \<Rightarrow> string list" where
  "order_by_columns order_by =
     (case order_by of
        None \<Rightarrow> [''input_file_name'']
      | Some k \<Rightarrow> if \<not> truthy_keys k then [''input_file_name''] else as_list k)"

definition order_by_clause :: "string list \<Rightarrow> string" where
  "order_by_clause order_by =
     join '', '' (map (\<lambda>col. col @ '' DESC'')
                      (filter (\<lambda>col. col \<notin> set [''input_file_name'']) ([''input_file_name''] @ order_by)))"

definition recent_data_query :: "string list \<Rightarrow> string \<Rightarrow> string" where
  "recent_data_query key_columns order_clause =
     ''\<newline>                    CREATE OR REPLACE TEMPORARY VIEW temp_recent_data AS'' @
     ''\<newline>                    SELECT *'' @
     ''\<newline>                    FROM ('' @
     ''\<newline>                        SELECT t.*, ROW_NUMBER() OVER (PARTITION BY '' @ join '', '' key_columns @
       '' ORDER BY '' @ order_clause @ '') AS rnr'' @
     ''\<newline>                        FROM temp_original_data t'' @
     ''\<newline>                    ) x'' @
     ''\<newline>                    WHERE rnr = 1'' @
     ''\<newline>                ''"

definition register_view :: "'s spark \<Rightarrow> dataframe \<Rightarrow> string \<Rightarrow> 's world \<Rightarrow> 's world" where
  "register_view spark df name w = w\<lparr>session := createOrReplaceTempView spark df name (session w)\<rparr>"

text \<open>The handler of \<open>_handle_multiple_files\<close> catches \<open>AnalysisException\<close> only.\<close>

definition handle_multiple_files ::
  "DataQualityManager \<Rightarrow> 's spark \<Rightarrow> dataframe \<Rightarrow> keys \<Rightarrow> keys option \<Rightarrow> bool \<Rightarrow> ('s, dataframe) action" where
  "handle_multiple_files self spark df key_columns order_by use_sql =
     (let key_cols = partition_columns key_columns;
          order_cols = order_by_columns order_by;
          order_clause = order_by_clause order_cols
      in then_do
           (effect (log_block self ''Handling Multiple Files''
              [''Handling multiple files using key columns: '' @ repr_list key_cols @
               '' and ordering by: '' @ repr_list order_cols]))
           (\<lambda>u. try_except
              (then_do
                 (if use_sql then
                    then_do (effect (register_view spark df ''temp_original_data'')) (\<lambda>u.
                    let query = recent_data_query key_cols order_clause;
                        formatted_query = format_sql_query self query
                    in then_do (effect (log_message self
                         (''The following SQL query is used to handle multiple files:\<newline>'' @
                          formatted_query @ ''\<newline>'') ''info'')) (\<lambda>u.
                       then_do (run_sql spark query) (\<lambda>created.
                       then_do (run_sql spark ''SELECT * FROM temp_recent_data'') (\<lambda>recent.
                       returns (drop_columns spark recent [''rnr''])))))
                  else
                    then_do (lift (withColumn_row_number spark df ''rnr'' key_cols order_cols)) (\<lambda>numbered.
                    then_do (lift (filter_rows spark numbered (Equal (Col ''rnr'') (Lit (Num 1))))) (\<lambda>first_rows.
                    let result = drop_columns spark first_rows [''rnr'']
                    in then_do (effect (log_message self
                         (''DataFrame operation used: Applied row_number() with partition on '' @
                          repr_list key_cols @ '' and ordered by '' @ order_clause @ ''.'') ''info'')) (\<lambda>u.
                    returns result))))
                 (\<lambda>result.
                    then_do (effect (log_message self ''Handling multiple files completed successfully.'' ''info''))
                      (\<lambda>u. returns result)))
              (\<lambda>e. if is_AnalysisException e
                    then raise_error self (''Failed to handle multiple files: '' @ exn_str e)
                    else raises e)))"

subsection \<open>The checks\<close>

definition duplicate_check_query :: "string list \<Rightarrow> string" where
  "duplicate_check_query key_columns =
     ''\<newline>                    SELECT '' @
     ''\<newline>                        COUNT(*) AS duplicate_count, '' @ join '', '' key_columns @
     ''\<newline>                    FROM temp_view_check_duplicates'' @
     ''\<newline>                    GROUP BY '' @ join '', '' key_columns @
     ''\<newline>                    HAVING COUNT(*) > 1'' @
     ''\<newline>                ''"

definition check_for_duplicates ::
  "DataQualityManager \<Rightarrow> 's spark \<Rightarrow> dataframe \<Rightarrow> keys \<Rightarrow> bool \<Rightarrow> ('s, unit) action" where
  "check_for_duplicates self spark df key_columns use_sql =
     (let key_cols = as_list key_columns
      in then_do
           (effect (log_block self ''Duplicate Check''
              [''Checking for duplicates using key columns: '' @ repr_list key_cols]))
           (\<lambda>u. try_except
              (then_do
                 (if use_sql then
                    then_do (effect (register_view spark df ''temp_view_check_duplicates'')) (\<lambda>u.
                    let query = duplicate_check_query key_cols;
                        formatted_query = format_sql_query self query
                    in then_do (effect (log_message self
                         (''The following SQL query is used to check for duplicates:\<newline>'' @
                          formatted_query @ ''\<newline>'') ''info'')) (\<lambda>u.
                       then_do (run_sql spark query) (\<lambda>duplicates_df.
                       lift (count spark duplicates_df))))
                  else
                    then_do (lift (groupBy_count spark df key_cols)) (\<lambda>grouped.
                    then_do (lift (filter_rows spark grouped (Greater (Col ''count'') (Lit (Num 1))))) (\<lambda>duplicates_df.
                    then_do (effect (log_message self
                         (''DataFrame operation used: GroupBy on '' @ repr_list key_cols @
                          '' and filter where count > 1.'') ''info'')) (\<lambda>u.
                    lift (count spark duplicates_df)))))
                 (\<lambda>duplicate_count.
                    if duplicate_count > 0 then
                      raise_error self
                        (''Duplicate check failed: Found '' @ str_nat duplicate_count @
                         '' duplicates based on key columns '' @ repr_list key_cols @ ''.'')
                    else effect (log_message self ''Duplicate check passed: No duplicates found.'' ''info'')))
              (\<lambda>e. raise_error self (''Failed to check for duplicates: '' @ exn_str e))))"

definition check_for_nulls ::
  "DataQualityManager \<Rightarrow> 's spark \<Rightarrow> dataframe \<Rightarrow> string list \<Rightarrow> ('s, unit) action" where
  "check_for_nulls self spark df critical_columns =
     then_do
       (effect (log_block self ''Null Values Check''
          [''Checking for null values in columns: '' @ repr_list critical_columns]))
       (\<lambda>u. for_each critical_columns (\<lambda>col.
          try_except
            (then_do (lift (filter_rows spark df (IsNull (Col col)))) (\<lambda>nulls.
             then_do (lift (count spark nulls)) (\<lambda>null_count.
                then_do (effect (log_message self
                  (''DataFrame operation used: F.col('' @ quoted col @ '').isNull()'') ''info'')) (\<lambda>u.
                if null_count > 0 then
                  raise_error self
                    (''Null values check failed: Column '' @ quoted col @ '' has '' @ str_nat null_count @
                     '' missing values.'')
                else effect (log_message self (''Column '' @ quoted col @ '' has no missing values.'') ''info'')))))
            (\<lambda>e. raise_error self
               (''Failed to check for null values in column '' @ quoted col @ '': '' @ exn_str e))))"

definition check_value_ranges ::
  "DataQualityManager \<Rightarrow> 's spark \<Rightarrow> dataframe \<Rightarrow> (string \<times> int \<times> int) list \<Rightarrow> ('s, unit) action" where
  "check_value_ranges self spark df column_ranges =
     then_do
       (effect (log_block self ''Value Range Check''
          [''Checking value ranges for columns: '' @ repr_list (map fst column_ranges)]))
       (\<lambda>u. for_each column_ranges (\<lambda>(col, min_val, max_val).
          try_except
            (then_do (lift (filter_rows spark df (Or (Less (Col col) (Lit (Num min_val)))
                                             (Greater (Col col) (Lit (Num max_val)))))) (\<lambda>outside.
             then_do (lift (count spark outside)) (\<lambda>out_of_range_count.
                then_do (effect (log_message self
                  (''DataFrame operation used: F.col('' @ quoted col @ '') < '' @ str_int min_val @
                   '' or F.col('' @ quoted col @ '') > '' @ str_int max_val) ''info'')) (\<lambda>u.
                if out_of_range_count > 0 then
                  raise_error self
                    (''Value range check failed: Column '' @ quoted col @ '' has '' @
                     str_nat out_of_range_count @ '' values out of range ['' @ str_int min_val @ '', '' @
                     str_int max_val @ ''].'')
                else effect (log_message self
                  (''Column '' @ quoted col @ '' values are within the specified range ['' @
                   str_int min_val @ '', '' @ str_int max_val @ ''].'') ''info'')))))
            (\<lambda>e. raise_error self
               (''Failed to check value ranges for column '' @ quoted col @ '': '' @ exn_str e))))"

definition check_referential_integrity ::
  "DataQualityManager \<Rightarrow> 's spark \<Rightarrow> dataframe \<Rightarrow> dataframe \<Rightarrow> string \<Rightarrow> ('s, unit) action" where
  "check_referential_integrity self spark df reference_df join_column =
     then_do
       (effect (log_block self ''Referential Integrity Check''
          [''Checking referential integrity on column '' @ quoted join_column]))
       (\<lambda>u. try_except
          (then_do (lift (join_left_anti spark df reference_df join_column)) (\<lambda>unmatched.
           then_do (lift (count spark unmatched)) (\<lambda>unmatched_count.
              then_do (effect (log_message self
                (''DataFrame operation used: df.join(reference_df, df['' @ quoted join_column @
                 ''] == reference_df['' @ quoted join_column @ ''], '' @ quoted ''left_anti'' @ '')'') ''info'')) (\<lambda>u.
              if unmatched_count > 0 then
                raise_error self
                  (''Referential integrity check failed: '' @ str_nat unmatched_count @ '' records in '' @
                   quoted join_column @ '' do not match the reference data.'')
              else effect (log_message self
                (''Referential integrity check passed for column '' @ quoted join_column @ ''.'') ''info'')))))
          (\<lambda>e. raise_error self
             (''Failed to check referential integrity for column '' @ quoted join_column @ '': '' @ exn_str e)))"

definition check_consistency_between_fields ::
  "DataQualityManager \<Rightarrow> 's spark \<Rightarrow> dataframe \<Rightarrow> (string \<times> string) list \<Rightarrow> ('s, unit) action" where
  "check_consistency_between_fields self spark df consistency_pairs =
     then_do
       (effect (log_block self ''Field Consistency Check''
          [''Checking consistency between field pairs: '' @ repr_pairs consistency_pairs]))
       (\<lambda>u. for_each consistency_pairs (\<lambda>(col1, col2).
          try_except
            (then_do (lift (filter_rows spark df (Greater (Col col1) (Col col2)))) (\<lambda>inconsistent.
             then_do (lift (count spark inconsistent)) (\<lambda>inconsistency_count.
                then_do (effect (log_message self
                  (''DataFrame operation used: F.col('' @ quoted col1 @ '') > F.col('' @ quoted col2 @ '')'')
                  ''info'')) (\<lambda>u.
                if inconsistency_count > 0 then
                  raise_error self
                    (''Consistency check failed: '' @ str_nat inconsistency_count @ '' records have '' @
                     quoted col1 @ '' greater than '' @ quoted col2 @ ''.'')
                else effect (log_message self
                  (''Consistency check passed for '' @ quoted col1 @ '' and '' @ quoted col2 @ ''.'') ''info'')))))
            (\<lambda>e. raise_error self
               (''Failed to check consistency between fields '' @ quoted col1 @ '' and '' @ quoted col2 @
                '': '' @ exn_str e))))"

subsection \<open>\<open>perform_data_quality_checks\<close>\<close>

definition perform_data_quality_checks ::
  "DataQualityManager \<Rightarrow> 's spark \<Rightarrow> dataframe \<Rightarrow> keys \<Rightarrow> string list option \<Rightarrow>
   (string \<times> int \<times> int) list option \<Rightarrow> dataframe option \<Rightarrow> string option \<Rightarrow>
   (string \<times> string) list option \<Rightarrow> string list option \<Rightarrow> keys option \<Rightarrow> bool \<Rightarrow> ('s, string) action" where
  "perform_data_quality_checks self spark df key_columns critical_columns column_ranges reference_df
     join_column consistency_pairs columns_to_exclude order_by use_sql =
     then_do (effect (logger_call (LogStart ''Data Quality Check Process''))) (\<lambda>u.
     let checks_to_perform =
           (if truthy_keys key_columns then [''Handling Multiple Files''] else []) @
           (if truthy critical_columns then [''Null Values Check''] else []) @
           (if truthy column_ranges then [''Value Range Check''] else []) @
           (if reference_df \<noteq> None \<and> truthy join_column then [''Referential Integrity Check''] else []) @
           (if truthy consistency_pairs then [''Field Consistency Check''] else []) @
           (if truthy columns_to_exclude then [''Exclude Columns''] else [])
     in then_do (effect (log_block self ''Quality Checks to Perform''
                   [''Checks to be performed: '' @ join '', '' checks_to_perform])) (\<lambda>u.
     try_except
       (then_do (if truthy_keys key_columns
                 then handle_multiple_files self spark df key_columns order_by use_sql
                 else returns df) (\<lambda>df1.
        then_do (check_for_duplicates self spark df1 key_columns use_sql) (\<lambda>u.
        then_do (if truthy critical_columns
                 then check_for_nulls self spark df1 (items critical_columns)
                 else returns ()) (\<lambda>u.
        then_do (if truthy column_ranges
                 then check_value_ranges self spark df1 (items column_ranges)
                 else returns ()) (\<lambda>u.
        then_do (case reference_df of
                   None \<Rightarrow> returns ()
                 | Some ref \<Rightarrow>
                     if truthy join_column
                     then check_referential_integrity self spark df1 ref (items join_column)
                     else returns ()) (\<lambda>u.
        then_do (if truthy consistency_pairs
                 then check_consistency_between_fields self spark df1 (items consistency_pairs)
                 else returns ()) (\<lambda>u.
        then_do (if truthy columns_to_exclude
                 then (let df2 = drop_columns spark df1 (items columns_to_exclude)
                       in then_do (effect (log_block self ''Excluding Columns''
                            [''Excluded columns: '' @ repr_list (items columns_to_exclude)]))
                            (\<lambda>u. returns df2))
                 else returns df1) (\<lambda>df2.
        let temp_view_name = ''cleaned_data_view''
        in then_do (effect (register_view spark df2 temp_view_name)) (\<lambda>u.
           then_do (effect (log_block self ''Finishing Results''
                      [''New temporary view '' @ quoted temp_view_name @ '' created.'',
                       ''All quality checks completed successfully.''])) (\<lambda>u.
           then_do (effect (logger_call (LogEnd ''Data Quality Check Process'' True
                      (Some ''Proceeding with notebook execution.'')))) (\<lambda>u.
           returns temp_view_name)))))))))))
       (\<lambda>e. then_do (effect (logger_call (LogEnd ''Data Quality Check Process'' False None)))
               (\<lambda>u. raise_error self (''Data quality checks failed: '' @ exn_str e)))))"

subsection \<open>\<open>run_all_checks\<close> and the binding of a call's arguments\<close>

text \<open>
  \<open>run_all_checks\<close> calls \<open>self._handle_multiple_files(df, key_columns,
  use_sql=use_sql)\<close>, so which parameter receives which argument is decided by
  Python's binding of a call: the positional arguments fill the parameters from the
  left (\<open>self\<close> first), a keyword argument must name a parameter that is still free,
  and a parameter left without an argument takes its default or is reported missing
  in a \<open>TypeError\<close>.  The objects passed are the manager itself, a session, a data
  frame, a string or list of column names, a boolean or \<open>None\<close>.
\<close>

datatype pyobj = PySelf | PySparkSession | PyDataFrame dataframe | PyKeys keys | PyBool bool | PyNone

fun format_names :: "string list \<Rightarrow> string" where
  "format_names [] = []"
| "format_names [a] = quoted a"
| "format_names [a, b] = quoted a @ '' and '' @ quoted b"
| "format_names xs = join '', '' (map quoted (butlast xs)) @ '', and '' @ quoted (last xs)"

definition plural :: "nat \<Rightarrow> string" where
  "plural n = (if n = 1 then [] else ''s'')"

definition bind_arguments ::
  "string \<Rightarrow> string list \<Rightarrow> (string \<times> pyobj) list \<Rightarrow> pyobj list \<Rightarrow> (string \<times> pyobj) list \<Rightarrow>
   exn + (string \<times> pyobj) list" where
  "bind_arguments fname params defaults positional keywords =
     (let bound = zip params positional
      in case find (\<lambda>k. k \<notin> set params) (map fst keywords) of
           Some k \<Rightarrow> Inl (TypeError (fname @ ''() got an unexpected keyword argument '' @ quoted k))
         | None \<Rightarrow>
         (case find (\<lambda>k. k \<in> set (map fst bound)) (map fst keywords) of
           Some k \<Rightarrow> Inl (TypeError (fname @ ''() got multiple values for argument '' @ quoted k))
         | None \<Rightarrow>
           if length positional > length params then
             Inl (TypeError (fname @ ''() takes '' @
               (if defaults = [] then [] else ''from '' @ str_nat (length params - length defaults) @ '' to '') @
               str_nat (length params) @ '' positional argument'' @ plural (length params) @ '' but '' @
               str_nat (length positional) @ (if length positional = 1 then '' was'' else '' were'') @ '' given''))
           else
             (let given = bound @ keywords;
                  missing = filter (\<lambda>p. p \<notin> set (map fst given) \<and> p \<notin> set (map fst defaults)) params
              in if missing \<noteq> [] then
                   Inl (TypeError (fname @ ''() missing '' @ str_nat (length missing) @
                     '' required positional argument'' @ plural (length missing) @ '': '' @ format_names missing))
                 else Inr (given @ filter (\<lambda>d. fst d \<notin> set (map fst given)) defaults))))"

text \<open>
  The body of \<open>_handle_multiple_files\<close> on bound arguments.  An argument that is not
  the kind of object its parameter is used as makes the body fail on its first use of
  it; the model reports that as a \<open>TypeError\<close>.
\<close>

definition handle_multiple_files_bound ::
  "DataQualityManager \<Rightarrow> 's spark \<Rightarrow> (string \<times> pyobj) list \<Rightarrow> ('s, dataframe) action" where
  "handle_multiple_files_bound self spark env =
     (case (map_of env ''spark'', map_of env ''df'', map_of env ''key_columns'', map_of env ''use_sql'') of
        (Some PySparkSession, Some (PyDataFrame d), Some (PyKeys k), Some (PyBool use_sql)) \<Rightarrow>
          (case map_of env ''order_by'' of
             Some PyNone \<Rightarrow> handle_multiple_files self spark d k None use_sql
           | Some (PyKeys ord) \<Rightarrow> handle_multiple_files self spark d k (Some ord) use_sql
           | other \<Rightarrow> raises (TypeError ''order_by is not a string or a list''))
      | other \<Rightarrow> raises (TypeError ''an argument of _handle_multiple_files has the wrong type''))"

definition handle_multiple_files_call ::
  "DataQualityManager \<Rightarrow> 's spark \<Rightarrow> pyobj list \<Rightarrow> (string \<times> pyobj) list \<Rightarrow> ('s, dataframe) action" where
  "handle_multiple_files_call self spark positional keywords =
     (case bind_arguments ''DataQualityManager._handle_multiple_files''
             [''self'', ''spark'', ''df'', ''key_columns'', ''order_by'', ''use_sql'']
             [(''order_by'', PyNone), (''use_sql'', PyBool False)]
             (PySelf # positional) keywords of
        Inl e \<Rightarrow> raises e
      | Inr env \<Rightarrow> handle_multiple_files_bound self spark env)"

definition run_all_checks ::
  "DataQualityManager \<Rightarrow> 's spark \<Rightarrow> dataframe \<Rightarrow> string list \<Rightarrow> string list option \<Rightarrow>
   (string \<times> int \<times> int) list option \<Rightarrow> dataframe option \<Rightarrow> string option \<Rightarrow>
   (string \<times> string) list option \<Rightarrow> string list option \<Rightarrow> bool \<Rightarrow> ('s, string) action" where
  "run_all_checks self spark df key_columns critical_columns column_ranges reference_df
     join_column consistency_pairs columns_to_exclude use_sql =
     try_except
       (then_do (handle_multiple_files_call self spark
                   [PyDataFrame df, PyKeys (KList key_columns)] [(''use_sql'', PyBool use_sql)]) (\<lambda>df1.
        then_do (check_for_duplicates self spark df1 (KList key_columns) use_sql) (\<lambda>u.
        then_do (if truthy critical_columns
                 then check_for_nulls self spark df1 (items critical_columns)
                 else returns ()) (\<lambda>u.
        then_do (if truthy column_ranges
                 then check_value_ranges self spark df1 (items column_ranges)
                 else returns ()) (\<lambda>u.
        then_do (case reference_df of
                   None \<Rightarrow> returns ()
                 | Some ref \<Rightarrow>
                     if truthy join_column
                     then check_referential_integrity self spark df1 ref (items join_column)
                     else returns ()) (\<lambda>u.
        then_do (if truthy consistency_pairs
                 then check_consistency_between_fields self spark df1 (items consistency_pairs)
                 else returns ()) (\<lambda>u.
        then_do (if truthy columns_to_exclude
                 then (let df2 = drop_columns spark df1 (items columns_to_exclude)
                       in then_do (effect (log_block self ''Excluding Columns''
                            [''Excluded columns: '' @ repr_list (items columns_to_exclude)]))
                            (\<lambda>u. returns df2))
                 else returns df1) (\<lambda>df2.
        let temp_view_name = ''cleaned_data_view''
        in then_do (effect (register_view spark df2 temp_view_name)) (\<lambda>u.
           then_do (effect (log_block self ''Finishing Results''
                      [''New temporary view '' @ quoted temp_view_name @ '' created.'',
                       ''All quality checks completed successfully.''])) (\<lambda>u.
           returns temp_view_name))))))))))
       (\<lambda>e. raise_error self (''Data quality checks failed: '' @ exn_str e))"

section \<open>A reference engine for the examples\<close>

text \<open>
  The examples are run on an engine that computes its answers from the rows of a
  frame.  It follows Spark 3 with its default settings: a column name resolves when
  exactly one column has that name, letter case ignored; a comparison with \<open>NULL\<close>
  is unknown; a string compared with a number is cast to an integer first, and is
  \<open>NULL\<close> when it is no number; \<open>|\<close> is the three-valued disjunction; \<open>filter\<close>
  keeps the rows whose condition is true.  Numbers are integers without a bound.  It
  is one instance of the engine: the general statements below hold for every engine
  and do not rest on it.
\<close>

definition lower_char :: "char \<Rightarrow> char" where
  "lower_char c =
     (let n = (of_char c :: nat)
      in if (65 \<le> n \<and> n \<le> 90) \<or> (192 \<le> n \<and> n \<le> 222 \<and> n \<noteq> 215) then char_of (n + 32) else c)"

definition lower :: "string \<Rightarrow> string" where
  "lower s = map lower_char s"

definition same_name :: "string \<Rightarrow> string \<Rightarrow> bool" where
  "same_name a b = (lower a = lower b)"

definition cell_of :: "row \<Rightarrow> string \<Rightarrow> cell" where
  "cell_of r c = (case find (\<lambda>kv. same_name (fst kv) c) r of None \<Rightarrow> None | Some kv \<Rightarrow> snd kv)"

definition resolves :: "dataframe \<Rightarrow> string \<Rightarrow> bool" where
  "resolves df c = (length (filter (\<lambda>k. same_name k c) (columns df)) = 1)"

text \<open>The engine's message is shortened.\<close>

definition unresolved :: "string \<Rightarrow> exn" where
  "unresolved c = AnalysisException (''Column '' @ repr_str c @ '' cannot be resolved or is ambiguous'')"

text \<open>The first of the names an operation refers to that does not resolve, if any.\<close>

definition first_unresolved :: "dataframe \<Rightarrow> string list \<Rightarrow> string option" where
  "first_unresolved df cs = find (\<lambda>c. \<not> resolves df c) cs"

text \<open>
  The cast of a string to an integer: white space and control characters at both
  ends are dropped, a sign may come first, then digits, then possibly a point and
  more digits, which are cut off; anything else is no number.
\<close>

definition is_digit :: "char \<Rightarrow> bool" where
  "is_digit c = (48 \<le> (of_char c :: nat) \<and> (of_char c :: nat) \<le> 57)"

fun digits_value :: "nat \<Rightarrow> string \<Rightarrow> nat option" where
  "digits_value acc [] = Some acc"
| "digits_value acc (c # cs) =
     (if is_digit c then digits_value (10 * acc + (of_char c - 48)) cs else None)"

definition trim_all :: "string \<Rightarrow> string" where
  "trim_all s =
     rev (dropWhile (\<lambda>c. (of_char c :: nat) \<le> 32) (rev (dropWhile (\<lambda>c. (of_char c :: nat) \<le> 32) s)))"

definition cast_int :: "string \<Rightarrow> int option" where
  "cast_int s =
     (case trim_all s of
        [] \<Rightarrow> None
      | c # cs \<Rightarrow>
          (let signed = (c = CHR ''-'' \<or> c = CHR ''+'');
               body = (if signed then cs else c # cs)
           in if signed \<and> cs = [] then None
              else (case (digits_value 0 (takeWhile (\<lambda>d. d \<noteq> CHR ''.'') body),
                          digits_value 0 (drop 1 (dropWhile (\<lambda>d. d \<noteq> CHR ''.'') body))) of
                      (Some n, Some fraction) \<Rightarrow> Some (if c = CHR ''-'' then - int n else int n)
                    | other \<Rightarrow> None)))"

fun str_less :: "string \<Rightarrow> string \<Rightarrow> bool" where
  "str_less [] [] = False"
| "str_less [] (y # ys) = True"
| "str_less (x # xs) [] = False"
| "str_less (x # xs) (y # ys) =
     ((of_char x :: nat) < of_char y \<or> (x = y \<and> str_less xs ys))"

fun val_less :: "val \<Rightarrow> val \<Rightarrow> bool option" where
  "val_less (Num a) (Num b) = Some (a < b)"
| "val_less (Str a) (Str b) = Some (str_less a b)"
| "val_less (Num a) (Str b) = map_option (\<lambda>n. a < n) (cast_int b)"
| "val_less (Str a) (Num b) = map_option (\<lambda>n. n < b) (cast_int a)"

fun val_equal :: "val \<Rightarrow> val \<Rightarrow> bool option" where
  "val_equal (Num a) (Num b) = Some (a = b)"
| "val_equal (Str a) (Str b) = Some (a = b)"
| "val_equal (Num a) (Str b) = map_option (\<lambda>n. a = n) (cast_int b)"
| "val_equal (Str a) (Num b) = map_option (\<lambda>n. n = b) (cast_int a)"

fun operand_columns :: "operand \<Rightarrow> string list" where
  "operand_columns (Col c) = [c]"
| "operand_columns (Lit v) = []"

fun condition_columns :: "condition \<Rightarrow> string list" where
  "condition_columns (IsNull a) = operand_columns a"
| "condition_columns (Less a b) = operand_columns a @ operand_columns b"
| "condition_columns (Greater a b) = operand_columns a @ operand_columns b"
| "condition_columns (Equal a b) = operand_columns a @ operand_columns b"
| "condition_columns (Or p q) = condition_columns p @ condition_columns q"

fun eval_operand :: "row \<Rightarrow> operand \<Rightarrow> cell" where
  "eval_operand r (Col c) = cell_of r c"
| "eval_operand r (Lit v) = Some v"

fun compare_cells :: "(val \<Rightarrow> val \<Rightarrow> bool option) \<Rightarrow> cell \<Rightarrow> cell \<Rightarrow> bool option" where
  "compare_cells f (Some x) (Some y) = f x y"
| "compare_cells f None b = None"
| "compare_cells f (Some x) None = None"

fun or3 :: "bool option \<Rightarrow> bool option \<Rightarrow> bool option" where
  "or3 (Some True) q = Some True"
| "or3 p (Some True) = Some True"
| "or3 (Some False) (Some False) = Some False"
| "or3 p q = None"

fun eval_condition :: "row \<Rightarrow> condition \<Rightarrow> bool option" where
  "eval_condition r (IsNull a) = Some (eval_operand r a = None)"
| "eval_condition r (Less a b) = compare_cells val_less (eval_operand r a) (eval_operand r b)"
| "eval_condition r (Greater a b) = compare_cells val_less (eval_operand r b) (eval_operand r a)"
| "eval_condition r (Equal a b) = compare_cells val_equal (eval_operand r a) (eval_operand r b)"
| "eval_condition r (Or p q) = or3 (eval_condition r p) (eval_condition r q)"

definition reference_filter :: "dataframe \<Rightarrow> condition \<Rightarrow> exn + dataframe" where
  "reference_filter df cond =
     (case first_unresolved df (condition_columns cond) of
        Some c \<Rightarrow> Inl (unresolved c)
      | None \<Rightarrow> Inr (df\<lparr>rows := filter (\<lambda>r. eval_condition r cond = Some True) (rows df)\<rparr>))"

definition reference_count :: "dataframe \<Rightarrow> exn + nat" where
  "reference_count df = Inr (length (rows df))"

definition reference_select_collect :: "dataframe \<Rightarrow> string list \<Rightarrow> exn + cell list list" where
  "reference_select_collect df cols =
     (case first_unresolved df cols of
        Some c \<Rightarrow> Inl (unresolved c)
      | None \<Rightarrow> Inr (map (\<lambda>r. map (cell_of r) cols) (rows df)))"

text \<open>\<open>df.drop(*cols)\<close>: a name that is no column is ignored.\<close>

definition reference_drop :: "dataframe \<Rightarrow> string list \<Rightarrow> dataframe" where
  "reference_drop df cols =
     \<lparr>columns = filter (\<lambda>c. \<not> list_ex (same_name c) cols) (columns df),
      rows = map (filter (\<lambda>kv. \<not> list_ex (same_name (fst kv)) cols)) (rows df)\<rparr>"

text \<open>
  \<open>df.groupBy(keys).count()\<close>: one row for each combination of key cells that occurs
  (\<open>NULL\<close> keys group together), with the key cells and the size of the group in the
  column \<open>count\<close>.
\<close>

definition key_of :: "string list \<Rightarrow> row \<Rightarrow> cell list" where
  "key_of keys r = map (cell_of r) keys"

definition reference_groupBy_count :: "dataframe \<Rightarrow> string list \<Rightarrow> exn + dataframe" where
  "reference_groupBy_count df keys =
     (case first_unresolved df keys of
        Some c \<Rightarrow> Inl (unresolved c)
      | None \<Rightarrow>
          Inr \<lparr>columns = keys @ [''count''],
               rows = map (\<lambda>g. (''count'', Some (Num (int (length (filter (\<lambda>r. key_of keys r = g) (rows df))))))
                                 # zip keys g)
                          (remdups (map (key_of keys) (rows df)))\<rparr>)"

text \<open>
  The row number over a window.  A row's number is one more than the number of rows
  of its partition that sort before it.  The order is descending with \<open>NULL\<close> last,
  column by column; among rows the order does not separate the engine's choice is
  not determined, and the reference engine keeps the order of the input.
\<close>

fun desc_before :: "cell \<Rightarrow> cell \<Rightarrow> bool" where
  "desc_before (Some x) (Some y) = (val_less y x = Some True)"
| "desc_before (Some x) None = True"
| "desc_before None b = False"

fun sorts_before :: "string list \<Rightarrow> row \<Rightarrow> row \<Rightarrow> bool" where
  "sorts_before [] q r = False"
| "sorts_before (c # cs) q r =
     (desc_before (cell_of q c) (cell_of r c) \<or>
      (\<not> desc_before (cell_of r c) (cell_of q c) \<and> sorts_before cs q r))"

fun row_numbers :: "string list \<Rightarrow> string list \<Rightarrow> row list \<Rightarrow> row list \<Rightarrow> nat list" where
  "row_numbers part ord earlier [] = []"
| "row_numbers part ord earlier (r # later) =
     (1 + length (filter (\<lambda>q. key_of part q = key_of part r \<and> \<not> sorts_before ord r q) earlier)
        + length (filter (\<lambda>q. key_of part q = key_of part r \<and> sorts_before ord q r) later))
     # row_numbers part ord (earlier @ [r]) later"

definition reference_withColumn_row_number ::
  "dataframe \<Rightarrow> string \<Rightarrow> string list \<Rightarrow> string list \<Rightarrow> exn + dataframe" where
  "reference_withColumn_row_number df name part ord =
     (case first_unresolved df (part @ ord) of
        Some c \<Rightarrow> Inl (unresolved c)
      | None \<Rightarrow>
          Inr \<lparr>columns = (if list_ex (same_name name) (columns df) then columns df else columns df @ [name]),
               rows = map (\<lambda>(n, r). (name, Some (Num (int n))) # r)
                          (zip (row_numbers part ord [] (rows df)) (rows df))\<rparr>)"

text \<open>The left anti join: the rows for which no row of the reference makes the equality true.\<close>

definition reference_join_left_anti :: "dataframe \<Rightarrow> dataframe \<Rightarrow> string \<Rightarrow> exn + dataframe" where
  "reference_join_left_anti df reference_df c =
     (if \<not> resolves df c then Inl (unresolved c)
      else if \<not> resolves reference_df c then Inl (unresolved c)
      else Inr (df\<lparr>rows := filter (\<lambda>r. \<not> list_ex (\<lambda>q. compare_cells val_equal (cell_of r c) (cell_of q c) = Some True)
                                                    (rows reference_df))
                                 (rows df)\<rparr>))"

section \<open>Example inputs\<close>

text \<open>
  The reference engine as a session: its state is the list of registered views and
  it answers every statement with a one-row history.  The failing session differs in
  that its every statement fails.  Then an empty world and two managers.
\<close>

definition example_spark :: "(string \<times> dataframe) list spark" where
  "example_spark =
     \<lparr>sql = (\<lambda>query s. (s, Inr \<lparr>columns = [''version''], rows = [[(''version'', Some (Num 7))]]\<rparr>)),
      createOrReplaceTempView = (\<lambda>df name s. (name, df) # s),
      select_collect = reference_select_collect,
      filter_rows = reference_filter,
      count = reference_count,
      groupBy_count = reference_groupBy_count,
      withColumn_row_number = reference_withColumn_row_number,
      join_left_anti = reference_join_left_anti,
      drop_columns = reference_drop\<rparr>"

definition failing_spark :: "(string \<times> dataframe) list spark" where
  "failing_spark = example_spark\<lparr>sql := (\<lambda>query s. (s, Inl (EngineError ''table not found'')))\<rparr>"

definition example_world :: "(string \<times> dataframe) list world" where
  "example_world = \<lparr>session = [], logged = [], helper_messages = [], displayed = []\<rparr>"

definition quiet_manager :: DataQualityManager where
  "quiet_manager = \<lparr>debug = False, sqlparse_format = (\<lambda>query. query)\<rparr>"

definition debug_manager :: DataQualityManager where
  "debug_manager = \<lparr>debug = True, sqlparse_format = (\<lambda>query. query)\<rparr>"

text \<open>Two files that each hold a record of the key \<open>id = 1\<close>.\<close>

definition two_files :: dataframe where
  "two_files =
     \<lparr>columns = [''input_file_name'', ''id''],
      rows = [[(''input_file_name'', Some (Str ''f1'')), (''id'', Some (Num 1))],
              [(''input_file_name'', Some (Str ''f2'')), (''id'', Some (Num 1))]]\<rparr>"

text \<open>
  Two orders from two files, complete and consistent, and the customers they refer
  to.
\<close>

definition orders :: dataframe where
  "orders =
     \<lparr>columns = [''input_file_name'', ''id'', ''amount'', ''valid_from'', ''valid_to'', ''note''],
      rows = [[(''input_file_name'', Some (Str ''f1'')), (''id'', Some (Num 1)), (''amount'', Some (Num 10)),
               (''valid_from'', Some (Num 1)), (''valid_to'', Some (Num 2)), (''note'', None)],
              [(''input_file_name'', Some (Str ''f2'')), (''id'', Some (Num 2)), (''amount'', Some (Num 20)),
               (''valid_from'', Some (Num 3)), (''valid_to'', Some (Num 4)), (''note'', Some (Str ''late''))]]\<rparr>"

definition customers :: dataframe where
  "customers = \<lparr>columns = [''id''], rows = [[(''id'', Some (Num 1))], [(''id'', Some (Num 2))]]\<rparr>"

section \<open>Observing the log\<close>

text \<open>
  The headers of the blocks a run has logged, in the order of logging, and the
  actions that log no block.
\<close>

fun block_headers :: "log_entry list \<Rightarrow> string list" where
  "block_headers [] = []"
| "block_headers (LogBlock header content_lines # entries) = header # block_headers entries"
| "block_headers (entry # entries) = block_headers entries"

definition adds_no_block :: "('s, 'a) action \<Rightarrow> bool" where
  "adds_no_block m = (\<forall>w. block_headers (logged (fst (m w))) = block_headers (logged w))"

section \<open>Splitting, joining and stripping\<close>

text \<open>
  \<open>split\<close> and \<open>join\<close> are inverse to each other on the lists of pieces that hold no
  separator, so every string is the comma-separated list of exactly one such list of
  pieces; \<open>strip\<close> removes white space at both ends and nothing else.
\<close>

lemma split_not_Nil: "split c s \<noteq> []"
  by (induction s) (auto split: list.splits)

lemma split_no_sep: "c \<notin> set p \<Longrightarrow> split c p = [p]"
  by (induction p) auto

lemma split_append_sep: "c \<notin> set p \<Longrightarrow> split c (p @ c # s) = p # split c s"
  by (induction p) auto

lemma split_join:
  "ps \<noteq> [] \<Longrightarrow> \<forall>p\<in>set ps. c \<notin> set p \<Longrightarrow> split c (join [c] ps) = ps"
proof (induction ps)
  case Nil
  then show ?case by simp
next
  case (Cons x ps)
  show ?case
  proof (cases ps)
    case Nil
    then show ?thesis using Cons.prems by (simp add: split_no_sep)
  next
    case (Cons y ys)
    then show ?thesis using Cons.prems Cons.IH by (simp add: split_append_sep)
  qed
qed

lemma join_split: "join [c] (split c s) = s"
proof (induction s)
  case Nil
  then show ?case by simp
next
  case (Cons x s)
  show ?case
  proof (cases "split c s")
    case Nil
    then show ?thesis using split_not_Nil by blast
  next
    case (Cons p ps)
    then show ?thesis using Cons.IH 
      by (cases ps) auto
  qed
qed

lemma split_pieces_no_sep: "p \<in> set (split c s) \<Longrightarrow> c \<notin> set p"
  by (induction s arbitrary: p) (auto split: if_splits list.splits)

lemma strip_decompose:
  "\<exists>a b. s = a @ strip s @ b \<and> (\<forall>c\<in>set a. isspace c) \<and> (\<forall>c\<in>set b. isspace c)"
proof -
  let ?t = "dropWhile isspace s"
  have 1: "s = takeWhile isspace s @ ?t" by simp
  have 2: "rev ?t = takeWhile isspace (rev ?t) @ dropWhile isspace (rev ?t)" by simp
  have "?t = rev (dropWhile isspace (rev ?t)) @ rev (takeWhile isspace (rev ?t))"
    by (metis 2 rev_append rev_rev_ident)
  then have "s = takeWhile isspace s @ strip s @ rev (takeWhile isspace (rev ?t))"
    unfolding strip_def using 1 by simp
  moreover have "\<forall>c\<in>set (takeWhile isspace s). isspace c" by (auto dest: set_takeWhileD)
  moreover have "\<forall>c\<in>set (rev (takeWhile isspace (rev ?t))). isspace c" by (auto dest: set_takeWhileD)
  ultimately show ?thesis by blast
qed

lemma strip_ends:
  "strip s \<noteq> [] \<Longrightarrow> \<not> isspace (hd (strip s)) \<and> \<not> isspace (last (strip s))"
proof -
  assume ne: "strip s \<noteq> []"
  let ?t = "dropWhile isspace s"
  let ?u = "dropWhile isspace (rev ?t)"
  have une: "?u \<noteq> []" using ne by (simp add: strip_def)
  then have a: "\<not> isspace (hd ?u)" by (rule hd_dropWhile)
  have last: "last (strip s) = hd ?u" using une by (simp add: strip_def last_rev)
  have tne: "?t \<noteq> []"
    using une by (metis dropWhile.simps(1) rev.simps(1))
  then have b: "\<not> isspace (hd ?t)" by (rule hd_dropWhile)
  have "strip s = rev ?u" by (simp add: strip_def)
  obtain pre where "rev ?t = pre @ ?u" by (metis takeWhile_dropWhile_id)
  then have "?t = rev ?u @ rev pre" by (metis rev_append rev_rev_ident)
  then have "hd ?t = hd (rev ?u)" using une by (metis hd_append2 rev_is_Nil_conv)
  then show ?thesis using a b last by (simp add: strip_def)
qed


section \<open>Basic facts\<close>

text \<open>
  The definitions of the actions, unfolded together; the first step of a sequence
  that starts with an effect; a returning run as a pair; the column names of the
  examples, which are in lower case; and the definitions that evaluate a check on
  the reference engine.
\<close>

lemmas action_defs = then_do_def try_except_def lift_def effect_def returns_def raises_def raise_error_def

lemma then_do_effect: "then_do (effect f) g w = g () (f w)"
  by (simp add: then_do_def effect_def)

lemma returned: "snd p = Inr x \<Longrightarrow> p = (fst p, Inr x)"
  by (simp add: prod_eq_iff)

lemma str_nat_one: "str_nat (Suc 0) = ''1''"
  by code_simp

lemma lower_names:
  "lower ''id'' = ''id''"
  "lower ''input_file_name'' = ''input_file_name''"
  "lower ''rnr'' = ''rnr''"
  "lower ''count'' = ''count''"
  "lower ''amount'' = ''amount''"
  "lower ''valid_from'' = ''valid_from''"
  "lower ''valid_to'' = ''valid_to''"
  "lower ''note'' = ''note''"
  "lower ''loaded_at'' = ''loaded_at''"
  "lower ''version'' = ''version''"
  by code_simp+

lemmas reference_defs =
  example_spark_def failing_spark_def reference_filter_def reference_count_def reference_select_collect_def
  reference_drop_def reference_groupBy_count_def reference_withColumn_row_number_def
  reference_join_left_anti_def first_unresolved_def resolves_def key_of_def cell_of_def same_name_def
  lower_names

lemmas evaluation_defs =
  action_defs Let_def reference_defs log_block_def log_message_def logger_call_def debug_manager_def

section \<open>The merge module\<close>

text \<open>
  Claim C3.  For every integer pre-merge version \<open>v\<close>: when the engine executes the
  MERGE statement without raising, \<open>execute_merge_and_get_post_version\<close> returns
  exactly \<open>v + 1\<close> (and writes the success message to the helper, if there is one).
\<close>

theorem execute_merge_post_version:
  assumes "sql spark merge_sql (session w) = (s', Inr df)"
  shows "execute_merge_and_get_post_version spark database_name table_name merge_sql v helper w
         = (write_message helper ''Data merged successfully.'' (w\<lparr>session := s'\<rparr>), Inr (v + 1))"
  using assms by (simp add: execute_merge_and_get_post_version_def run_sql_def)

theorem execute_merge_post_version_witness:
  "execute_merge_and_get_post_version example_spark ''db'' ''tbl'' ''MERGE'' 41 False example_world
   = (example_world, Inr 42)"
  using execute_merge_post_version
          [of example_spark "''MERGE''" example_world "[]" _ "''db''" "''tbl''" 41 False]
  by (simp add: example_spark_def example_world_def write_message_def)

text \<open>
  Claim C7.  Let \<open>key_columns\<close> be the comma-separated list of the pieces \<open>pieces\<close>
  (at least one piece, none holding a comma; every string is such a list in exactly
  one way, by \<open>join_split\<close> and \<open>split_join\<close>).  Then \<open>generate_merge_sql\<close> returns the
  statement that merges into \<open>database.table AS t\<close> using the view \<open>AS s\<close>, whose \<open>ON\<close>
  condition joins with \<open>AND\<close> one equality \<open>s.k = t.k\<close> for each piece, \<open>k\<close> being the
  stripped piece, followed by the clauses \<open>WHEN MATCHED THEN UPDATE SET *\<close> and
  \<open>WHEN NOT MATCHED THEN INSERT *\<close> and nothing else.
\<close>

theorem generate_merge_sql_statement:
  assumes "pieces \<noteq> []" and "\<forall>p\<in>set pieces. CHR '','' \<notin> set p"
  shows "snd (generate_merge_sql view_name database_name table_name (join '','' pieces) helper w) =
         Inr (''\<newline>    MERGE INTO '' @ database_name @ ''.'' @ table_name @ '' AS t'' @
              ''\<newline>    USING '' @ view_name @ '' AS s'' @
              ''\<newline>    ON '' @ join '' AND '' (map (\<lambda>k. ''s.'' @ strip k @ '' = t.'' @ strip k) pieces) @
              ''\<newline>    WHEN MATCHED THEN'' @
              ''\<newline>      UPDATE SET *'' @
              ''\<newline>    WHEN NOT MATCHED THEN'' @
              ''\<newline>      INSERT *'' @
              ''\<newline>    '')"
proof -
  have "split CHR '','' (join [CHR '',''] pieces) = pieces"
    using assms by (rule split_join)
  then show ?thesis
    by (simp add: generate_merge_sql_def merge_sql_text_def match_sql_def Let_def)
qed

theorem generate_merge_sql_statement_witness:
  "snd (generate_merge_sql ''v'' ''db'' ''tbl'' ''id, name '' False example_world) =
   Inr (''\<newline>    MERGE INTO db.tbl AS t\<newline>    USING v AS s\<newline>    ON s.id = t.id AND s.name = t.name\<newline>    WHEN MATCHED THEN\<newline>      UPDATE SET *\<newline>    WHEN NOT MATCHED THEN\<newline>      INSERT *\<newline>    '')"
  using generate_merge_sql_statement
          [of "[''id'', '' name '']" "''v''" "''db''" "''tbl''" False example_world]
  by (simp add: strip_def isspace_def)

text \<open>
  Claim C8.  For every pair of versions \<open>p\<close> (before the merge) and \<open>q\<close> (after it),
  the one statement \<open>display_newly_merged_data\<close> gives the engine is the \<open>EXCEPT\<close> of
  the whole table at \<open>VERSION AS OF q\<close> minus the whole table at \<open>VERSION AS OF p\<close>; when
  the engine answers it with a data frame, the function shows the first ten rows of
  that answer, so at most ten rows, and returns.
\<close>

theorem display_newly_merged_data_query:
  assumes "sql spark
             (''\<newline>    SELECT * FROM '' @ database_name @ ''.'' @ table_name @ '' VERSION AS OF '' @ str_int q @
              ''\<newline>    EXCEPT'' @
              ''\<newline>    SELECT * FROM '' @ database_name @ ''.'' @ table_name @ '' VERSION AS OF '' @ str_int p @
              ''\<newline>    '') (session w) = (s', Inr df)"
  shows "fst (display_newly_merged_data spark database_name table_name p q helper w) =
           (write_message helper
              (''Displaying newly merged data with query: '' @ merged_data_sql database_name table_name p q) w)
           \<lparr>session := s', displayed := displayed w @ [df\<lparr>rows := take 10 (rows df)\<rparr>]\<rparr>
         \<and> snd (display_newly_merged_data spark database_name table_name p q helper w) = Inr ()
         \<and> length (rows (last (displayed
               (fst (display_newly_merged_data spark database_name table_name p q helper w))))) \<le> 10"
  using assms
  by (simp add: display_newly_merged_data_def merged_data_sql_def run_sql_def Let_def write_message_def
      display_def limit_def)

theorem display_newly_merged_data_query_witness:
  "displayed (fst (display_newly_merged_data example_spark ''db'' ''tbl'' 7 8 False example_world)) =
     [\<lparr>columns = [''version''], rows = [[(''version'', Some (Num 7))]]\<rparr>]
   \<and> snd (display_newly_merged_data example_spark ''db'' ''tbl'' 7 8 False example_world) = Inr ()"
  using display_newly_merged_data_query
          [of example_spark "''db''" "''tbl''" 8 7 example_world "[]" _ False]
  by (simp add: example_spark_def example_world_def write_message_def)

section \<open>The quality module\<close>

subsection \<open>The call in \<open>run_all_checks\<close>\<close>

lemma bind_missing:
  "bind_arguments ''DataQualityManager._handle_multiple_files''
     [''self'', ''spark'', ''df'', ''key_columns'', ''order_by'', ''use_sql'']
     [(''order_by'', PyNone), (''use_sql'', PyBool False)]
     [PySelf, a, b] [(''use_sql'', c)]
   = Inl (TypeError (''DataQualityManager._handle_multiple_files() missing 1 required positional argument: '' @ quoted ''key_columns''))"
  by (simp add: bind_arguments_def Let_def plural_def str_nat_one quoted_def)

text \<open>
  Claim C9.  For every input, \<open>run_all_checks\<close> raises a \<open>RuntimeError\<close> and never
  returns the name of the view: its first step calls \<open>_handle_multiple_files\<close> with
  two positional arguments, which fill \<open>spark\<close> and \<open>df\<close>, so \<open>key_columns\<close> is
  missing; the handler of \<open>run_all_checks\<close> turns the \<open>TypeError\<close> into a
  \<open>RuntimeError\<close> through \<open>_raise_error\<close>.  Only the error message is logged and the
  session is left as it was.
\<close>

theorem run_all_checks_always_raises:
  "run_all_checks self spark df key_columns critical_columns column_ranges reference_df
     join_column consistency_pairs columns_to_exclude use_sql w =
   (log_message self
      (''Data quality checks failed: DataQualityManager._handle_multiple_files() missing 1 required positional argument: '' @ quoted ''key_columns'')
      ''error'' w,
    Inl (RuntimeError
      (''Data quality checks failed: DataQualityManager._handle_multiple_files() missing 1 required positional argument: '' @ quoted ''key_columns'')))"
  by (simp add: run_all_checks_def handle_multiple_files_call_def bind_missing try_except_def then_do_def
      raises_def raise_error_def)

theorem run_all_checks_always_raises_witness:
  "snd (run_all_checks quiet_manager example_spark two_files [''id''] None None None None None None False example_world) =
    Inl (RuntimeError
      (''Data quality checks failed: DataQualityManager._handle_multiple_files() missing 1 required positional argument: '' @ quoted ''key_columns''))
   \<and> session (fst (run_all_checks quiet_manager example_spark two_files [''id''] None None None None None None False example_world)) = []"
  using run_all_checks_always_raises
          [of quiet_manager example_spark two_files "[''id'']" None None None None None None False example_world]
  by (simp add: log_message_def logger_call_def example_world_def)

subsection \<open>The \<open>ORDER BY\<close> of the generated statement\<close>

lemma order_by_clause_filter:
  "order_by_clause cols = join '', '' (map (\<lambda>col. col @ '' DESC'') (filter (\<lambda>col. col \<noteq> ''input_file_name'') cols))"
  by (simp add: order_by_clause_def)

lemma filter_subset_singleton: "set xs \<subseteq> {a} \<Longrightarrow> filter (\<lambda>x. x \<noteq> a) xs = []"
  by (induction xs) auto

lemma handle_multiple_files_sql_raises:
  assumes "sql spark (recent_data_query (partition_columns key_columns) (order_by_clause (order_by_columns order_by)))
              (createOrReplaceTempView spark df ''temp_original_data'' (session w)) = (s', Inl e)"
  shows "snd (handle_multiple_files self spark df key_columns order_by True w) =
           Inl (if is_AnalysisException e
                then RuntimeError (''Failed to handle multiple files: '' @ exn_str e) else e)"
  using assms
  by (simp add: handle_multiple_files_def Let_def then_do_def try_except_def effect_def run_sql_def
      register_view_def log_block_def log_message_def logger_call_def raise_error_def raises_def)

text \<open>
  Claim C10.  In \<open>_handle_multiple_files\<close> the \<open>ORDER BY\<close> part of the generated
  statement lists, each with \<open>DESC\<close>, exactly the \<open>order_by\<close> columns other than
  \<open>input_file_name\<close>.  So when \<open>order_by\<close> is not provided (it then defaults to
  \<open>input_file_name\<close>) or names only \<open>input_file_name\<close>, the part is the empty string,
  the window reads \<open>ORDER BY )\<close>, and with \<open>use_sql\<close> true that is the statement the
  engine is given: what the engine raises for it is what the function raises.
\<close>

theorem order_by_clause_drops_input_file_name:
  "order_by_clause (order_by_columns order_by) =
     join '', '' (map (\<lambda>col. col @ '' DESC'')
                      (filter (\<lambda>col. col \<noteq> ''input_file_name'') (order_by_columns order_by)))
   \<and> order_by_columns None = [''input_file_name'']
   \<and> (set (order_by_columns order_by) \<subseteq> {''input_file_name''} \<longrightarrow>
        order_by_clause (order_by_columns order_by) = []
        \<and> recent_data_query key_cols (order_by_clause (order_by_columns order_by)) =
            ''\<newline>                    CREATE OR REPLACE TEMPORARY VIEW temp_recent_data AS'' @
            ''\<newline>                    SELECT *'' @
            ''\<newline>                    FROM ('' @
            ''\<newline>                        SELECT t.*, ROW_NUMBER() OVER (PARTITION BY '' @ join '', '' key_cols @
              '' ORDER BY ) AS rnr'' @
            ''\<newline>                        FROM temp_original_data t'' @
            ''\<newline>                    ) x'' @
            ''\<newline>                    WHERE rnr = 1'' @
            ''\<newline>                ''
        \<and> (\<forall>s' e. sql spark (recent_data_query (partition_columns key_columns) [])
                      (createOrReplaceTempView spark df ''temp_original_data'' (session w)) = (s', Inl e) \<longrightarrow>
             snd (handle_multiple_files self spark df key_columns order_by True w) =
               Inl (if is_AnalysisException e
                    then RuntimeError (''Failed to handle multiple files: '' @ exn_str e) else e)))"
proof (intro conjI impI allI)
  show "order_by_clause (order_by_columns order_by) =
     join '', '' (map (\<lambda>col. col @ '' DESC'')
                      (filter (\<lambda>col. col \<noteq> ''input_file_name'') (order_by_columns order_by)))"
    by (rule order_by_clause_filter)
  show "order_by_columns None = [''input_file_name'']"
    by (simp add: order_by_columns_def)
next
  assume sub: "set (order_by_columns order_by) \<subseteq> {''input_file_name''}"
  then show empty: "order_by_clause (order_by_columns order_by) = []"
    by (simp add: order_by_clause_filter filter_subset_singleton)
  then show "recent_data_query key_cols (order_by_clause (order_by_columns order_by)) =
            ''\<newline>                    CREATE OR REPLACE TEMPORARY VIEW temp_recent_data AS'' @
            ''\<newline>                    SELECT *'' @
            ''\<newline>                    FROM ('' @
            ''\<newline>                        SELECT t.*, ROW_NUMBER() OVER (PARTITION BY '' @ join '', '' key_cols @
              '' ORDER BY ) AS rnr'' @
            ''\<newline>                        FROM temp_original_data t'' @
            ''\<newline>                    ) x'' @
            ''\<newline>                    WHERE rnr = 1'' @
            ''\<newline>                ''"
    by (simp add: recent_data_query_def)
  fix s' e
  assume "sql spark (recent_data_query (partition_columns key_columns) [])
                      (createOrReplaceTempView spark df ''temp_original_data'' (session w)) = (s', Inl e)"
  then show "snd (handle_multiple_files self spark df key_columns order_by True w) =
               Inl (if is_AnalysisException e
                    then RuntimeError (''Failed to handle multiple files: '' @ exn_str e) else e)"
    using handle_multiple_files_sql_raises [of spark key_columns order_by df w s' e self] empty by simp
qed


theorem order_by_clause_drops_input_file_name_witness:
  "order_by_clause (order_by_columns (Some (KList [''input_file_name'']))) = []
   \<and> order_by_clause (order_by_columns (Some (KList [''input_file_name'', ''loaded_at'']))) = ''loaded_at DESC''
   \<and> snd (handle_multiple_files quiet_manager failing_spark two_files (KList [''id'']) None True example_world)
       = Inl (EngineError ''table not found'')"
  using order_by_clause_drops_input_file_name
          [of "Some (KList [''input_file_name''])" "[]" failing_spark "KList [''id'']" two_files example_world quiet_manager]
        order_by_clause_drops_input_file_name
          [of "Some (KList [''input_file_name'', ''loaded_at''])" "[]" failing_spark "KList [''id'']" two_files example_world quiet_manager]
        order_by_clause_drops_input_file_name
          [of None "[]" failing_spark "KList [''id'']" two_files example_world quiet_manager]
  by (simp add: order_by_columns_def failing_spark_def)

subsection \<open>When a check raises\<close>

lemma for_each_raises:
  assumes "\<And>x w. x \<in> set xs \<Longrightarrow> isl (snd (f x w)) = P x"
  shows "isl (snd (for_each xs f w)) = (\<exists>x\<in>set xs. P x)"
  using assms
proof (induction xs arbitrary: w)
  case Nil
  then show ?case by (simp add: returns_def)
next
  case (Cons x xs)
  have hd: "isl (snd (f x w)) = P x" using Cons.prems by simp
  show ?case
  proof (cases "f x w")
    case (Pair w1 r)
    show ?thesis
    proof (cases r)
      case (Inl e)
      then show ?thesis using Pair hd by (simp add: then_do_def)
    next
      case (Inr u)
      have "isl (snd (for_each xs f w1)) = (\<exists>x\<in>set xs. P x)"
        using Cons.IH Cons.prems by simp
      then show ?thesis using Pair Inr hd by (simp add: then_do_def)
    qed
  qed
qed

text \<open>A guarded count: the shape of every check on one query.\<close>

lemma guarded_count_raises:
  "isl (snd (try_except
          (then_do (lift q) (\<lambda>d.
           then_do (lift (c d)) (\<lambda>n.
             then_do (effect l) (\<lambda>u.
               if n > 0 then raise_error self (m n) else effect k))))
          (\<lambda>e. raise_error self (h e)) w))
   = (case q of Inl e \<Rightarrow> True | Inr d \<Rightarrow> (case c d of Inl e \<Rightarrow> True | Inr n \<Rightarrow> 0 < n))"
  by (cases q)
     (simp_all add: try_except_def then_do_def lift_def effect_def raise_error_def split: sum.splits)

lemma block_for_each_raises:
  assumes "\<And>x w. isl (snd (f x w)) = P x"
  shows "isl (snd (then_do (effect l) (\<lambda>u. for_each xs f) w)) = (\<exists>x\<in>set xs. P x)"
proof -
  have "then_do (effect l) (\<lambda>u. for_each xs f) w = for_each xs f (l w)"
    by (simp add: then_do_def effect_def)
  then show ?thesis using for_each_raises[of xs f P "l w"] assms by simp
qed

lemma check_for_nulls_raises:
  "isl (snd (check_for_nulls self spark df critical_columns w)) =
   (\<exists>c\<in>set critical_columns.
      case filter_rows spark df (IsNull (Col c)) of
        Inl e \<Rightarrow> True
      | Inr nulls \<Rightarrow> (case count spark nulls of Inl e \<Rightarrow> True | Inr null_count \<Rightarrow> 0 < null_count))"
  unfolding check_for_nulls_def
  apply (rule block_for_each_raises)
  apply (rule guarded_count_raises)
  done

lemma check_value_ranges_raises:
  "isl (snd (check_value_ranges self spark df column_ranges w)) =
   (\<exists>(c, min_val, max_val)\<in>set column_ranges.
      case filter_rows spark df (Or (Less (Col c) (Lit (Num min_val))) (Greater (Col c) (Lit (Num max_val)))) of
        Inl e \<Rightarrow> True
      | Inr outside \<Rightarrow> (case count spark outside of Inl e \<Rightarrow> True | Inr out_of_range_count \<Rightarrow> 0 < out_of_range_count))"
  unfolding check_value_ranges_def
  apply (rule block_for_each_raises)
  apply (simp only: split_paired_all case_prod_conv guarded_count_raises)
  done

lemma check_consistency_raises:
  "isl (snd (check_consistency_between_fields self spark df consistency_pairs w)) =
   (\<exists>(col1, col2)\<in>set consistency_pairs.
      case filter_rows spark df (Greater (Col col1) (Col col2)) of
        Inl e \<Rightarrow> True
      | Inr inconsistent \<Rightarrow>
          (case count spark inconsistent of Inl e \<Rightarrow> True | Inr inconsistency_count \<Rightarrow> 0 < inconsistency_count))"
  unfolding check_consistency_between_fields_def
  apply (rule block_for_each_raises)
  apply (simp only: split_paired_all case_prod_conv guarded_count_raises)
  done

lemma check_referential_integrity_raises:
  "isl (snd (check_referential_integrity self spark df reference_df join_column w)) =
   (case join_left_anti spark df reference_df join_column of
      Inl e \<Rightarrow> True
    | Inr unmatched \<Rightarrow> (case count spark unmatched of Inl e \<Rightarrow> True | Inr unmatched_count \<Rightarrow> 0 < unmatched_count))"
  unfolding check_referential_integrity_def then_do_effect guarded_count_raises
  by (rule refl)

lemma check_for_duplicates_dataframe_path:
  "isl (snd (check_for_duplicates self spark df key_columns False w)) =
   (case groupBy_count spark df (as_list key_columns) of
      Inl e \<Rightarrow> True
    | Inr grouped \<Rightarrow>
        (case filter_rows spark grouped (Greater (Col ''count'') (Lit (Num 1))) of
           Inl e \<Rightarrow> True
         | Inr duplicates_df \<Rightarrow>
             (case count spark duplicates_df of Inl e \<Rightarrow> True | Inr duplicate_count \<Rightarrow> 0 < duplicate_count)))"
  by (simp add: check_for_duplicates_def Let_def then_do_def try_except_def lift_def effect_def
      returns_def raise_error_def split: sum.splits)

lemma check_for_duplicates_sql_path:
  "isl (snd (check_for_duplicates self spark df key_columns True w)) =
   (case snd (sql spark (duplicate_check_query (as_list key_columns))
                (createOrReplaceTempView spark df ''temp_view_check_duplicates'' (session w))) of
      Inl e \<Rightarrow> True
    | Inr duplicates_df \<Rightarrow>
        (case count spark duplicates_df of Inl e \<Rightarrow> True | Inr duplicate_count \<Rightarrow> 0 < duplicate_count))"
proof (cases "sql spark (duplicate_check_query (as_list key_columns))
                (createOrReplaceTempView spark df ''temp_view_check_duplicates'' (session w))")
  case (Pair s' answer)
  then show ?thesis
    by (cases answer)
       (simp_all add: check_for_duplicates_def Let_def then_do_def try_except_def lift_def effect_def
          returns_def raise_error_def run_sql_def register_view_def log_block_def log_message_def
          logger_call_def split: sum.splits)
qed

text \<open>
  Claim C1, as the code has it.  Whatever the engine is, a check raises exactly when
  the engine raises for an operation of the check or the count the engine returns is
  strictly greater than zero, and otherwise it returns:
  \<^item> \<open>_check_for_duplicates\<close> on data frames raises iff the engine raises for the
    grouping, for the filter \<open>count > 1\<close> on the groups or for the count of the
    filtered groups, or that count is positive; with \<open>use_sql\<close> it raises iff the engine
    raises for the grouping statement or for the count of its answer, or that count
    is positive;
  \<^item> \<open>_check_for_nulls\<close> raises iff for some listed column the engine raises for the
    filter \<open>isNull\<close> or for the count of the filtered frame, or that count is positive;
  \<^item> \<open>_check_value_ranges\<close> raises iff the same holds of some listed column and the
    filter \<open>column < min_val | column > max_val\<close>;
  \<^item> \<open>_check_referential_integrity\<close> raises iff the engine raises for the left anti
    join or for the count of its result, or that count is positive;
  \<^item> \<open>_check_consistency_between_fields\<close> raises iff the same holds of some listed
    pair and the filter \<open>col1 > col2\<close>.
  What the count of a filtered frame is, is the engine's answer: how it resolves
  names and compares cells is not fixed here.
\<close>

theorem checks_raise_iff_engine_raises_or_counts:
  "(isl (snd (check_for_duplicates self spark df key_columns False w)) \<longleftrightarrow>
      (case groupBy_count spark df (as_list key_columns) of
         Inl e \<Rightarrow> True
       | Inr grouped \<Rightarrow>
           (case filter_rows spark grouped (Greater (Col ''count'') (Lit (Num 1))) of
              Inl e \<Rightarrow> True
            | Inr duplicates_df \<Rightarrow>
                (case count spark duplicates_df of Inl e \<Rightarrow> True | Inr duplicate_count \<Rightarrow> 0 < duplicate_count))))
   \<and> (isl (snd (check_for_duplicates self spark df key_columns True w)) \<longleftrightarrow>
      (case snd (sql spark (duplicate_check_query (as_list key_columns))
                   (createOrReplaceTempView spark df ''temp_view_check_duplicates'' (session w))) of
         Inl e \<Rightarrow> True
       | Inr duplicates_df \<Rightarrow>
           (case count spark duplicates_df of Inl e \<Rightarrow> True | Inr duplicate_count \<Rightarrow> 0 < duplicate_count)))
   \<and> (isl (snd (check_for_nulls self spark df critical_columns w)) \<longleftrightarrow>
      (\<exists>c\<in>set critical_columns.
         case filter_rows spark df (IsNull (Col c)) of
           Inl e \<Rightarrow> True
         | Inr nulls \<Rightarrow> (case count spark nulls of Inl e \<Rightarrow> True | Inr null_count \<Rightarrow> 0 < null_count)))
   \<and> (isl (snd (check_value_ranges self spark df column_ranges w)) \<longleftrightarrow>
      (\<exists>(c, min_val, max_val)\<in>set column_ranges.
         case filter_rows spark df (Or (Less (Col c) (Lit (Num min_val))) (Greater (Col c) (Lit (Num max_val)))) of
           Inl e \<Rightarrow> True
         | Inr outside \<Rightarrow>
             (case count spark outside of Inl e \<Rightarrow> True | Inr out_of_range_count \<Rightarrow> 0 < out_of_range_count)))
   \<and> (isl (snd (check_referential_integrity self spark df reference_df join_column w)) \<longleftrightarrow>
      (case join_left_anti spark df reference_df join_column of
         Inl e \<Rightarrow> True
       | Inr unmatched \<Rightarrow>
           (case count spark unmatched of Inl e \<Rightarrow> True | Inr unmatched_count \<Rightarrow> 0 < unmatched_count)))
   \<and> (isl (snd (check_consistency_between_fields self spark df consistency_pairs w)) \<longleftrightarrow>
      (\<exists>(col1, col2)\<in>set consistency_pairs.
         case filter_rows spark df (Greater (Col col1) (Col col2)) of
           Inl e \<Rightarrow> True
         | Inr inconsistent \<Rightarrow>
             (case count spark inconsistent of
                Inl e \<Rightarrow> True
              | Inr inconsistency_count \<Rightarrow> 0 < inconsistency_count)))"
  by (intro conjI)
     (rule check_for_duplicates_dataframe_path check_for_duplicates_sql_path check_for_nulls_raises
        check_value_ranges_raises check_referential_integrity_raises check_consistency_raises)+

theorem checks_raise_iff_engine_raises_or_counts_witness:
  "isl (snd (check_for_duplicates quiet_manager example_spark two_files (KList [''id'']) False example_world))
   \<and> \<not> isl (snd (check_for_duplicates quiet_manager example_spark two_files
                   (KList [''id'', ''input_file_name'']) False example_world))
   \<and> isl (snd (check_for_duplicates quiet_manager example_spark two_files (KList [''id'']) True example_world))
   \<and> \<not> isl (snd (check_for_nulls quiet_manager example_spark two_files [''id''] example_world))
   \<and> isl (snd (check_value_ranges quiet_manager example_spark two_files [(''id'', 2, 5)] example_world))
   \<and> \<not> isl (snd (check_referential_integrity quiet_manager example_spark two_files two_files ''id''
                   example_world))
   \<and> \<not> isl (snd (check_consistency_between_fields quiet_manager example_spark two_files [(''id'', ''id'')]
                   example_world))"
  using checks_raise_iff_engine_raises_or_counts
          [of quiet_manager example_spark two_files "KList [''id'']" example_world
          "[''id'']" "[(''id'', 2, 5)]" two_files "''id''" "[(''id'', ''id'')]"]
        checks_raise_iff_engine_raises_or_counts
          [of quiet_manager example_spark two_files "KList [''id'', ''input_file_name'']"
          example_world "[]" "[]" two_files "''id''" "[]"]
  by (simp add: two_files_def reference_defs)

text \<open>
  The claim as stated fails where the engine raises.  On the reference engine, a
  listed column that the data frame does not have holds no \<open>NULL\<close>, and no column of
  the frame does, yet \<open>_check_for_nulls\<close> raises, with the engine's message inside its
  own.
\<close>

theorem check_for_nulls_raises_without_null:
  "snd (check_for_nulls quiet_manager example_spark two_files [''loaded_at''] example_world) =
     Inl (RuntimeError (''Failed to check for null values in column '' @ quoted ''loaded_at'' @ '': '' @
                        exn_str (unresolved ''loaded_at'')))
   \<and> \<not> list_ex (same_name ''loaded_at'') (columns two_files)
   \<and> \<not> (\<exists>c\<in>set (columns two_files). \<exists>r\<in>set (rows two_files). cell_of r c = None)"
  by (simp add: check_for_nulls_def then_do_def try_except_def lift_def effect_def returns_def
      raise_error_def reference_defs two_files_def)

subsection \<open>What becomes of an exception of the engine\<close>









subsection \<open>The order of the passes\<close>

lemma block_headers_append: "block_headers (xs @ ys) = block_headers xs @ block_headers ys"
  by (induction xs rule: block_headers.induct) auto

lemma blocks_log_message [simp]:
  "block_headers (logged (log_message self m l w)) = block_headers (logged w)"
  by (simp add: log_message_def logger_call_def block_headers_append)

lemma blocks_log_block [simp]:
  "block_headers (logged (log_block self h ls w)) = block_headers (logged w) @ (if debug self then [h] else [])"
  by (simp add: log_block_def logger_call_def block_headers_append)

lemma blocks_logger_call [simp]:
  "block_headers (logged (logger_call (LogStart n) w)) = block_headers (logged w)"
  "block_headers (logged (logger_call (LogEnd n b a) w)) = block_headers (logged w)"
  by (simp_all add: logger_call_def block_headers_append)

lemma logged_register_view [simp]: "logged (register_view spark df name w) = logged w"
  by (simp add: register_view_def)

lemma logged_run_sql [simp]: "logged (fst (run_sql spark query w)) = logged w"
  by (simp add: run_sql_def split: prod.splits)

lemma adds_no_block_basic:
  "adds_no_block (returns x)"
  "adds_no_block (raises e)"
  "adds_no_block (lift r)"
  "adds_no_block (raise_error self m)"
  "adds_no_block (effect (log_message self m l))"
  "adds_no_block (effect (register_view spark df name))"
  "adds_no_block (run_sql spark query)"
  by (simp_all add: adds_no_block_def action_defs)

lemma adds_no_block_then_do:
  assumes "adds_no_block m" and "\<And>x. adds_no_block (f x)"
  shows "adds_no_block (then_do m f)"
  unfolding adds_no_block_def
proof
  fix w
  show "block_headers (logged (fst (then_do m f w))) = block_headers (logged w)"
  proof (cases "m w")
    case (Pair w1 r)
    then have w1: "block_headers (logged w1) = block_headers (logged w)"
      using assms(1) by (auto simp: adds_no_block_def dest: spec[of _ w])
    show ?thesis
    proof (cases r)
      case (Inl e)
      then show ?thesis using Pair w1 by (simp add: then_do_def)
    next
      case (Inr x)
      then show ?thesis using Pair w1 assms(2)[of x]
        by (auto simp: then_do_def adds_no_block_def dest: spec[of _ w1])
    qed
  qed
qed

lemma adds_no_block_try_except:
  assumes "adds_no_block m" and "\<And>e. adds_no_block (h e)"
  shows "adds_no_block (try_except m h)"
  unfolding adds_no_block_def
proof
  fix w
  show "block_headers (logged (fst (try_except m h w))) = block_headers (logged w)"
  proof (cases "m w")
    case (Pair w1 r)
    then have w1: "block_headers (logged w1) = block_headers (logged w)"
      using assms(1) by (auto simp: adds_no_block_def dest: spec[of _ w])
    show ?thesis
    proof (cases r)
      case (Inr x)
      then show ?thesis using Pair w1 by (simp add: try_except_def)
    next
      case (Inl e)
      then show ?thesis using Pair w1 assms(2)[of e]
        by (auto simp: try_except_def adds_no_block_def dest: spec[of _ w1])
    qed
  qed
qed

lemma adds_no_block_if:
  "adds_no_block m \<Longrightarrow> adds_no_block n \<Longrightarrow> adds_no_block (if b then m else n)"
  by simp

lemma adds_no_block_let: "adds_no_block (f v) \<Longrightarrow> adds_no_block (Let v f)"
  by simp

lemmas adds_no_block_intros =
  adds_no_block_basic adds_no_block_then_do adds_no_block_try_except adds_no_block_if adds_no_block_let

lemma blocks_after_block:
  assumes "adds_no_block m"
  shows "block_headers (logged (fst (then_do (effect (log_block self h ls)) (\<lambda>u. m) w))) =
         block_headers (logged w) @ (if debug self then [h] else [])"
  using assms by (simp add: then_do_def effect_def adds_no_block_def)

lemma adds_no_block_for_each:
  assumes "\<And>x. adds_no_block (f x)"
  shows "adds_no_block (for_each xs f)"
  by (induction xs) (simp_all add: adds_no_block_basic adds_no_block_then_do assms)

lemma adds_no_block_case_prod:
  "(\<And>a b. adds_no_block (f a b)) \<Longrightarrow> adds_no_block (case_prod f p)"
  by (cases p) simp

lemmas adds_no_block_loops = adds_no_block_intros adds_no_block_for_each adds_no_block_case_prod

lemma blocks_check_for_nulls:
  "block_headers (logged (fst (check_for_nulls self spark df critical_columns w))) =
   block_headers (logged w) @ (if debug self then [''Null Values Check''] else [])"
  unfolding check_for_nulls_def Let_def
  by (rule blocks_after_block) (intro adds_no_block_loops)

lemma blocks_check_value_ranges:
  "block_headers (logged (fst (check_value_ranges self spark df column_ranges w))) =
   block_headers (logged w) @ (if debug self then [''Value Range Check''] else [])"
  unfolding check_value_ranges_def Let_def
  by (rule blocks_after_block) (intro adds_no_block_loops)

lemma blocks_check_consistency:
  "block_headers (logged (fst (check_consistency_between_fields self spark df consistency_pairs w))) =
   block_headers (logged w) @ (if debug self then [''Field Consistency Check''] else [])"
  unfolding check_consistency_between_fields_def Let_def
  by (rule blocks_after_block) (intro adds_no_block_loops)

lemma blocks_check_referential_integrity:
  "block_headers (logged (fst (check_referential_integrity self spark df reference_df join_column w))) =
   block_headers (logged w) @ (if debug self then [''Referential Integrity Check''] else [])"
  unfolding check_referential_integrity_def Let_def
  by (rule blocks_after_block) (intro adds_no_block_loops)

lemma blocks_check_for_duplicates:
  "block_headers (logged (fst (check_for_duplicates self spark df key_columns use_sql w))) =
   block_headers (logged w) @ (if debug self then [''Duplicate Check''] else [])"
  unfolding check_for_duplicates_def Let_def
  by (rule blocks_after_block) (intro adds_no_block_intros)

lemma blocks_handle_multiple_files:
  "block_headers (logged (fst (handle_multiple_files self spark df key_columns order_by use_sql w))) =
   block_headers (logged w) @ (if debug self then [''Handling Multiple Files''] else [])"
  unfolding handle_multiple_files_def Let_def
  by (rule blocks_after_block) (intro adds_no_block_intros)

lemma perform_data_quality_checks_result:
  assumes start: "w0 = log_block self ''Quality Checks to Perform''
             [''Checks to be performed: '' @ join '', ''
                ((if truthy_keys key_columns then [''Handling Multiple Files''] else []) @
                 (if truthy critical_columns then [''Null Values Check''] else []) @
                 (if truthy column_ranges then [''Value Range Check''] else []) @
                 (if reference_df \<noteq> None \<and> truthy join_column then [''Referential Integrity Check''] else []) @
                 (if truthy consistency_pairs then [''Field Consistency Check''] else []) @
                 (if truthy columns_to_exclude then [''Exclude Columns''] else []))]
             (logger_call (LogStart ''Data Quality Check Process'') w)"
    and latest: "(if truthy_keys key_columns
                  then handle_multiple_files self spark df key_columns order_by use_sql
                  else returns df) w0 = (w1, Inr df1)"
    and duplicates: "check_for_duplicates self spark df1 key_columns use_sql w1 = (w2, Inr ())"
    and nulls: "(if truthy critical_columns
                 then check_for_nulls self spark df1 (items critical_columns)
                 else returns ()) w2 = (w3, Inr ())"
    and ranges: "(if truthy column_ranges
                  then check_value_ranges self spark df1 (items column_ranges)
                  else returns ()) w3 = (w4, Inr ())"
    and references: "(case reference_df of
                        None \<Rightarrow> returns ()
                      | Some ref \<Rightarrow>
                          if truthy join_column
                          then check_referential_integrity self spark df1 ref (items join_column)
                          else returns ()) w4 = (w5, Inr ())"
    and consistency: "(if truthy consistency_pairs
                       then check_consistency_between_fields self spark df1 (items consistency_pairs)
                       else returns ()) w5 = (w6, Inr ())"
  shows "perform_data_quality_checks self spark df key_columns critical_columns column_ranges reference_df
           join_column consistency_pairs columns_to_exclude order_by use_sql w =
         (logger_call (LogEnd ''Data Quality Check Process'' True (Some ''Proceeding with notebook execution.''))
            (log_block self ''Finishing Results''
               [''New temporary view '' @ quoted ''cleaned_data_view'' @ '' created.'',
                ''All quality checks completed successfully.'']
               (register_view spark
                  (if truthy columns_to_exclude then drop_columns spark df1 (items columns_to_exclude) else df1)
                  ''cleaned_data_view''
                  (if truthy columns_to_exclude
                   then log_block self ''Excluding Columns''
                          [''Excluded columns: '' @ repr_list (items columns_to_exclude)] w6
                   else w6))),
          Inr ''cleaned_data_view'')"
  unfolding perform_data_quality_checks_def Let_def
  apply (subst then_do_effect)
  apply (subst then_do_effect)
  apply (fold start)
  apply (simp only: then_do_def try_except_def latest duplicates nulls ranges references consistency
      prod.case sum.case)
  apply (simp add: then_do_def effect_def returns_def)
  done

text \<open>
  The passes in their order.  Take any input on which every pass that
  \<open>perform_data_quality_checks\<close> runs returns, each started in the world its
  predecessor left: the latest-record pass (run when \<open>key_columns\<close> is true) returns
  \<open>df1\<close>, then on \<open>df1\<close> the duplicate check (run whatever \<open>key_columns\<close> is), the
  null check, the range check, the referential check and the consistency check
  return, each run as the code guards it.  Then the function drops the excluded
  columns, registers the resulting data frame as the view \<open>cleaned_data_view\<close> and
  returns that name; and with \<open>debug\<close> on, the blocks it has logged are, in this order,
  the announcement, the passes that ran in the order latest record, duplicates,
  nulls, ranges, referential integrity, consistency, exclusion, and the final block.
\<close>

lemma passes_in_order:
  assumes start: "w0 = log_block self ''Quality Checks to Perform''
             [''Checks to be performed: '' @ join '', ''
                ((if truthy_keys key_columns then [''Handling Multiple Files''] else []) @
                 (if truthy critical_columns then [''Null Values Check''] else []) @
                 (if truthy column_ranges then [''Value Range Check''] else []) @
                 (if reference_df \<noteq> None \<and> truthy join_column then [''Referential Integrity Check''] else []) @
                 (if truthy consistency_pairs then [''Field Consistency Check''] else []) @
                 (if truthy columns_to_exclude then [''Exclude Columns''] else []))]
             (logger_call (LogStart ''Data Quality Check Process'') w)"
    and latest: "(if truthy_keys key_columns
                  then handle_multiple_files self spark df key_columns order_by use_sql
                  else returns df) w0 = (w1, Inr df1)"
    and duplicates: "check_for_duplicates self spark df1 key_columns use_sql w1 = (w2, Inr ())"
    and nulls: "(if truthy critical_columns
                 then check_for_nulls self spark df1 (items critical_columns)
                 else returns ()) w2 = (w3, Inr ())"
    and ranges: "(if truthy column_ranges
                  then check_value_ranges self spark df1 (items column_ranges)
                  else returns ()) w3 = (w4, Inr ())"
    and references: "(case reference_df of
                        None \<Rightarrow> returns ()
                      | Some ref \<Rightarrow>
                          if truthy join_column
                          then check_referential_integrity self spark df1 ref (items join_column)
                          else returns ()) w4 = (w5, Inr ())"
    and consistency: "(if truthy consistency_pairs
                       then check_consistency_between_fields self spark df1 (items consistency_pairs)
                       else returns ()) w5 = (w6, Inr ())"
  shows "snd (perform_data_quality_checks self spark df key_columns critical_columns column_ranges
                reference_df join_column consistency_pairs columns_to_exclude order_by use_sql w) =
           Inr ''cleaned_data_view''
         \<and> session (fst (perform_data_quality_checks self spark df key_columns critical_columns column_ranges
                reference_df join_column consistency_pairs columns_to_exclude order_by use_sql w)) =
           createOrReplaceTempView spark
             (if truthy columns_to_exclude then drop_columns spark df1 (items columns_to_exclude) else df1)
             ''cleaned_data_view'' (session w6)
         \<and> block_headers (logged (fst (perform_data_quality_checks self spark df key_columns critical_columns
                column_ranges reference_df join_column consistency_pairs columns_to_exclude order_by use_sql w))) =
           block_headers (logged w) @
           (if debug self then
              [''Quality Checks to Perform''] @
              (if truthy_keys key_columns then [''Handling Multiple Files''] else []) @
              [''Duplicate Check''] @
              (if truthy critical_columns then [''Null Values Check''] else []) @
              (if truthy column_ranges then [''Value Range Check''] else []) @
              (if reference_df \<noteq> None \<and> truthy join_column then [''Referential Integrity Check''] else []) @
              (if truthy consistency_pairs then [''Field Consistency Check''] else []) @
              (if truthy columns_to_exclude then [''Excluding Columns''] else []) @
              [''Finishing Results'']
            else [])"
proof -
  note result = perform_data_quality_checks_result [OF start latest duplicates nulls ranges references
      consistency]
  have b0: "block_headers (logged w0) =
            block_headers (logged w) @ (if debug self then [''Quality Checks to Perform''] else [])"
    unfolding start by simp
  have b1: "block_headers (logged w1) =
            block_headers (logged w0) @
            (if debug self \<and> truthy_keys key_columns then [''Handling Multiple Files''] else [])"
    using latest blocks_handle_multiple_files [of self spark df key_columns order_by use_sql w0]
    by (cases "truthy_keys key_columns") (auto simp: returns_def)
  have b2: "block_headers (logged w2) =
            block_headers (logged w1) @ (if debug self then [''Duplicate Check''] else [])"
    using duplicates blocks_check_for_duplicates [of self spark df1 key_columns use_sql w1] by simp
  have b3: "block_headers (logged w3) =
            block_headers (logged w2) @
            (if debug self \<and> truthy critical_columns then [''Null Values Check''] else [])"
    using nulls blocks_check_for_nulls [of self spark df1 "items critical_columns" w2]
    by (cases "truthy critical_columns") (auto simp: returns_def)
  have b4: "block_headers (logged w4) =
            block_headers (logged w3) @
            (if debug self \<and> truthy column_ranges then [''Value Range Check''] else [])"
    using ranges blocks_check_value_ranges [of self spark df1 "items column_ranges" w3]
    by (cases "truthy column_ranges") (auto simp: returns_def)
  have b5: "block_headers (logged w5) =
            block_headers (logged w4) @
            (if debug self \<and> reference_df \<noteq> None \<and> truthy join_column
             then [''Referential Integrity Check''] else [])"
  proof (cases reference_df)
    case None
    then show ?thesis using references by (simp add: returns_def)
  next
    case (Some ref)
    then show ?thesis
      using references blocks_check_referential_integrity [of self spark df1 ref "items join_column" w4]
      by (cases "truthy join_column") (auto simp: returns_def)
  qed
  have b6: "block_headers (logged w6) =
            block_headers (logged w5) @
            (if debug self \<and> truthy consistency_pairs then [''Field Consistency Check''] else [])"
    using consistency blocks_check_consistency [of self spark df1 "items consistency_pairs" w5]
    by (cases "truthy consistency_pairs") (auto simp: returns_def)
  have r1: "snd (perform_data_quality_checks self spark df key_columns critical_columns column_ranges
                reference_df join_column consistency_pairs columns_to_exclude order_by use_sql w) =
           Inr ''cleaned_data_view''"
    unfolding result by simp
  have r2: "session (fst (perform_data_quality_checks self spark df key_columns critical_columns column_ranges
                reference_df join_column consistency_pairs columns_to_exclude order_by use_sql w)) =
           createOrReplaceTempView spark
             (if truthy columns_to_exclude then drop_columns spark df1 (items columns_to_exclude) else df1)
             ''cleaned_data_view'' (session w6)"
    unfolding result by (simp add: register_view_def logger_call_def log_block_def)
  have r3: "block_headers (logged (fst (perform_data_quality_checks self spark df key_columns critical_columns
                column_ranges reference_df join_column consistency_pairs columns_to_exclude order_by use_sql w))) =
           block_headers (logged w6) @
           (if debug self \<and> truthy columns_to_exclude then [''Excluding Columns''] else []) @
           (if debug self then [''Finishing Results''] else [])"
    unfolding result by simp
  show ?thesis
    unfolding r3 by (simp add: r1 r2 b0 b1 b2 b3 b4 b5 b6)
qed


lemma passes_in_order_example:
  "snd (perform_data_quality_checks debug_manager example_spark orders (KList [''id''])
          (Some [''amount'']) (Some [(''amount'', 0, 100)]) (Some customers) (Some ''id'')
          (Some [(''valid_from'', ''valid_to'')]) (Some [''note'']) None False example_world)
     = Inr ''cleaned_data_view''
   \<and> session (fst (perform_data_quality_checks debug_manager example_spark orders (KList [''id''])
          (Some [''amount'']) (Some [(''amount'', 0, 100)]) (Some customers) (Some ''id'')
          (Some [(''valid_from'', ''valid_to'')]) (Some [''note'']) None False example_world))
     = [(''cleaned_data_view'', reference_drop orders [''note''])]
   \<and> block_headers (logged (fst (perform_data_quality_checks debug_manager example_spark orders
          (KList [''id'']) (Some [''amount'']) (Some [(''amount'', 0, 100)]) (Some customers) (Some ''id'')
          (Some [(''valid_from'', ''valid_to'')]) (Some [''note'']) None False example_world)))
     = [''Quality Checks to Perform'', ''Handling Multiple Files'', ''Duplicate Check'',
        ''Null Values Check'', ''Value Range Check'', ''Referential Integrity Check'',
        ''Field Consistency Check'', ''Excluding Columns'', ''Finishing Results'']"
proof -
  define w0 :: "(string \<times> dataframe) list world" where "w0 = log_block debug_manager ''Quality Checks to Perform''
             [''Checks to be performed: '' @ join '', ''
                ((if truthy_keys (KList [''id'']) then [''Handling Multiple Files''] else []) @
                 (if truthy (Some [''amount'']) then [''Null Values Check''] else []) @
                 (if truthy (Some [(''amount'', 0::int, 100::int)]) then [''Value Range Check''] else []) @
                 (if Some customers \<noteq> None \<and> truthy (Some ''id'') then [''Referential Integrity Check''] else []) @
                 (if truthy (Some [(''valid_from'', ''valid_to'')]) then [''Field Consistency Check''] else []) @
                 (if truthy (Some [''note'']) then [''Exclude Columns''] else []))]
             (logger_call (LogStart ''Data Quality Check Process'') example_world)"
  define w1 where "w1 = fst (handle_multiple_files debug_manager example_spark orders (KList [''id'']) None False w0)"
  define w2 where "w2 = fst (check_for_duplicates debug_manager example_spark orders (KList [''id'']) False w1)"
  define w3 where "w3 = fst (check_for_nulls debug_manager example_spark orders [''amount''] w2)"
  define w4 where "w4 = fst (check_value_ranges debug_manager example_spark orders [(''amount'', 0, 100)] w3)"
  define w5 where "w5 = fst (check_referential_integrity debug_manager example_spark orders customers ''id'' w4)"
  define w6 where "w6 = fst (check_consistency_between_fields debug_manager example_spark orders [(''valid_from'', ''valid_to'')] w5)"
  have s0: "session w0 = []" "block_headers (logged w0) = [''Quality Checks to Perform'']"
    by (simp_all add: w0_def example_world_def debug_manager_def log_block_def logger_call_def)
  have h1: "snd (handle_multiple_files debug_manager example_spark orders (KList [''id'']) None False w0) = Inr orders"
    by (simp add: handle_multiple_files_def evaluation_defs partition_columns_def order_by_columns_def
        orders_def)
  have h2: "snd (check_for_duplicates debug_manager example_spark orders (KList [''id'']) False w1) = Inr ()"
    by (simp add: check_for_duplicates_def evaluation_defs orders_def)
  have h3: "snd (check_for_nulls debug_manager example_spark orders [''amount''] w2) = Inr ()"
    by (simp add: check_for_nulls_def evaluation_defs orders_def)
  have h4: "snd (check_value_ranges debug_manager example_spark orders [(''amount'', 0, 100)] w3) = Inr ()"
    by (simp add: check_value_ranges_def evaluation_defs orders_def)
  have h5: "snd (check_referential_integrity debug_manager example_spark orders customers ''id'' w4) = Inr ()"
    by (simp add: check_referential_integrity_def evaluation_defs orders_def customers_def)
  have h6: "snd (check_consistency_between_fields debug_manager example_spark orders [(''valid_from'', ''valid_to'')] w5) = Inr ()"
    by (simp add: check_consistency_between_fields_def evaluation_defs orders_def)
  have s1: "session w1 = []"
    using s0 by (simp add: w1_def handle_multiple_files_def evaluation_defs partition_columns_def
        order_by_columns_def orders_def)
  have s2: "session w2 = []"
    using s1 by (simp add: w2_def check_for_duplicates_def evaluation_defs orders_def)
  have s3: "session w3 = []"
    using s2 by (simp add: w3_def check_for_nulls_def evaluation_defs orders_def)
  have s4: "session w4 = []"
    using s3 by (simp add: w4_def check_value_ranges_def evaluation_defs orders_def)
  have s5: "session w5 = []"
    using s4 by (simp add: w5_def check_referential_integrity_def evaluation_defs
        orders_def customers_def)
  have sess: "session w6 = []"
    using s5 by (simp add: w6_def check_consistency_between_fields_def evaluation_defs orders_def)
  have g1: "(if truthy_keys (KList [''id''])
             then handle_multiple_files debug_manager example_spark orders (KList [''id'']) None False
             else returns orders) w0 = (w1, Inr orders)"
    unfolding w1_def using returned [OF h1] by simp
  have g2: "check_for_duplicates debug_manager example_spark orders (KList [''id'']) False w1 = (w2, Inr ())"
    unfolding w2_def using returned [OF h2] by simp
  have g3: "(if truthy (Some [''amount''])
             then check_for_nulls debug_manager example_spark orders (items (Some [''amount'']))
             else returns ()) w2 = (w3, Inr ())"
    unfolding w3_def using returned [OF h3] by simp
  have g4: "(if truthy (Some [(''amount'', 0::int, 100::int)])
             then check_value_ranges debug_manager example_spark orders (items (Some [(''amount'', 0, 100)]))
             else returns ()) w3 = (w4, Inr ())"
    unfolding w4_def using returned [OF h4] by simp
  have g5: "(case Some customers of
               None \<Rightarrow> returns ()
             | Some ref \<Rightarrow>
                 if truthy (Some ''id'')
                 then check_referential_integrity debug_manager example_spark orders ref (items (Some ''id''))
                 else returns ()) w4 = (w5, Inr ())"
    unfolding w5_def using returned [OF h5] by simp
  have g6: "(if truthy (Some [(''valid_from'', ''valid_to'')])
             then check_consistency_between_fields debug_manager example_spark orders
                    (items (Some [(''valid_from'', ''valid_to'')]))
             else returns ()) w5 = (w6, Inr ())"
    unfolding w6_def using returned [OF h6] by simp
  note run = passes_in_order [OF w0_def g1 g2 g3 g4 g5 g6]
  show ?thesis
    using run by (simp add: sess reference_defs orders_def example_world_def debug_manager_def)
qed


subsection \<open>Defects\<close>

text \<open>
  Claim C2 does not hold of the code.  \<open>_handle_multiple_files\<close> partitions by the
  key columns together with \<open>input_file_name\<close>, so two files that each hold a record
  of the key \<open>id = 1\<close> give two partitions and both rows are returned: the result is the
  input, and its two rows agree on the key column.
\<close>

theorem handle_multiple_files_keeps_a_row_per_file:
  "snd (handle_multiple_files quiet_manager example_spark two_files (KList [''id'']) None False example_world)
     = Inr two_files
   \<and> map (key_of [''id'']) (rows two_files) = [[Some (Num 1)], [Some (Num 1)]]"
  by (simp add: handle_multiple_files_def action_defs Let_def partition_columns_def order_by_columns_def
      reference_defs two_files_def log_block_def log_message_def quiet_manager_def)

text \<open>
  Claim C4 does not hold of the code.  With an empty \<open>key_columns\<close> the duplicate check
  is listed as triggered by \<open>key_columns\<close> and \<open>_list_checks_to_perform\<close> announces no
  check, yet \<open>perform_data_quality_checks\<close> runs it: grouping by no column counts one
  group of two rows, and the run fails with the message of the duplicate check.
\<close>

theorem duplicate_check_runs_without_key_columns:
  "snd (perform_data_quality_checks quiet_manager example_spark two_files (KList [])
          None None None None None None None False example_world)
     = Inl (RuntimeError (''Data quality checks failed: Failed to check for duplicates: '' @
                          ''Duplicate check failed: Found 1 duplicates based on key columns [].''))
   \<and> \<not> truthy_keys (KList [])
   \<and> list_checks_to_perform (Some (KList [])) None None None None None None = []
   \<and> map_of list_available_checks ''Duplicate Check'' =
       Some (''Triggered by '' @ quoted ''key_columns'' @
             ''. Checks for duplicate records based on specified columns.'')"
  by (simp add: perform_data_quality_checks_def check_for_duplicates_def action_defs Let_def
      reference_defs two_files_def log_block_def log_message_def quiet_manager_def logger_call_def
      str_nat_one repr_list_def list_checks_to_perform_def list_available_checks_def)

text \<open>
  Claim C5 does not hold of the code, by the unguarded duplicate check.  With an
  empty \<open>key_columns\<close> and no other parameter given, no check is triggered, so every
  triggered check passes; yet \<open>perform_data_quality_checks\<close> runs the duplicate
  check, which counts the two rows as one group, and raises: the only blocks logged
  are the announcement and the duplicate check, no view is registered and no name is
  returned.
\<close>

theorem perform_data_quality_checks_raises_with_no_check_triggered:
  "list_checks_to_perform (Some (KList [])) None None None None None None = []
   \<and> snd (perform_data_quality_checks debug_manager example_spark two_files (KList [])
            None None None None None None None False example_world)
       = Inl (RuntimeError (''Data quality checks failed: Failed to check for duplicates: '' @
                            ''Duplicate check failed: Found 1 duplicates based on key columns [].''))
   \<and> snd (perform_data_quality_checks debug_manager example_spark two_files (KList [])
            None None None None None None None False example_world)
       \<noteq> Inr ''cleaned_data_view''
   \<and> session (fst (perform_data_quality_checks debug_manager example_spark two_files (KList [])
            None None None None None None None False example_world)) = []
   \<and> block_headers (logged (fst (perform_data_quality_checks debug_manager example_spark two_files (KList [])
            None None None None None None None False example_world)))
       = [''Quality Checks to Perform'', ''Duplicate Check'']"
  by (simp add: perform_data_quality_checks_def check_for_duplicates_def action_defs Let_def
      reference_defs two_files_def log_block_def log_message_def debug_manager_def logger_call_def
      str_nat_one repr_list_def list_checks_to_perform_def example_world_def)

end
